theory Spec2Isabelle
  imports Complex_Main "HOL-Library.Word" "HOL-Library.AList"
begin

section \<open>Strings\<close>

text \<open>
  A JavaScript string is a sequence of UTF-16 code units, and \<^verbatim>\<open>includes\<close>,
  \<^verbatim>\<open>split\<close> and \<^verbatim>\<open>length\<close> work on code units. Japanese literals of the source are
  written as their code units, with a transliteration as the constant's name.
  \<^verbatim>\<open>ascii\<close> embeds a Basic Latin literal.
\<close>

type_synonym code_unit = "16 word"
type_synonym jsstring = "code_unit list"

definition ascii :: "string \<Rightarrow> jsstring" where
  "ascii s = map of_char s"

text \<open>\<^verbatim>\<open>s.startsWith(t)\<close> and \<^verbatim>\<open>s.includes(t)\<close>: \<open>t\<close> occurs in \<open>s\<close> as a contiguous run.\<close>

fun starts_with :: "jsstring \<Rightarrow> jsstring \<Rightarrow> bool" where
  "starts_with s [] = True"
| "starts_with [] (y # t) = False"
| "starts_with (x # s) (y # t) = (x = y \<and> starts_with s t)"

fun js_includes :: "jsstring \<Rightarrow> jsstring \<Rightarrow> bool" where
  "js_includes [] t = (t = [])"
| "js_includes (x # s) t = (starts_with (x # s) t \<or> js_includes s t)"

text \<open>
  \<^verbatim>\<open>toLowerCase\<close>: the letters A to Z become a to z. Case mappings outside Basic Latin
  are not part of the model; every literal the engine compares with is Basic Latin lower
  case or Japanese, which has no case.
\<close>

definition lower_unit :: "code_unit \<Rightarrow> code_unit" where
  "lower_unit c = (if 0x41 \<le> c \<and> c \<le> 0x5A then c + 0x20 else c)"

definition toLowerCase :: "jsstring \<Rightarrow> jsstring" where
  "toLowerCase s = map lower_unit s"

text \<open>
  The regular expression class \<^verbatim>\<open>\s\<close> (white space and line terminators), which is also
  what \<^verbatim>\<open>trim\<close> removes at both ends.
\<close>

definition is_space :: "code_unit \<Rightarrow> bool" where
  "is_space c \<longleftrightarrow>
     c \<in> {0x09, 0x0A, 0x0B, 0x0C, 0x0D, 0x20, 0xA0, 0x1680, 0x2028, 0x2029, 0x202F, 0x205F,
          0x3000, 0xFEFF} \<or> (0x2000 \<le> c \<and> c \<le> 0x200A)"

definition trim :: "jsstring \<Rightarrow> jsstring" where
  "trim s = rev (dropWhile is_space (rev (dropWhile is_space s)))"

text \<open>
  \<^verbatim>\<open>s.split(/[...]+/)\<close> for a class of separators: a maximal run of separators cuts
  the string once, so a string that begins or ends with a separator yields an empty
  first or last piece, and the empty string yields one empty piece. The class of the
  source, \<^verbatim>\<open>[\s,<U+3001><U+3002>]\<close>, is made of white space, the comma, the ideographic
  comma and the ideographic full stop; the Basic Latin full stop is not in it.
\<close>

definition is_separator :: "code_unit \<Rightarrow> bool" where
  "is_separator c \<longleftrightarrow> is_space c \<or> c = 0x2C \<or> c = 0x3001 \<or> c = 0x3002"

function split_on :: "(code_unit \<Rightarrow> bool) \<Rightarrow> jsstring \<Rightarrow> jsstring list" where
  "split_on sep [] = [[]]"
| "split_on sep (c # cs) =
     (if sep c then [] # split_on sep (dropWhile sep cs)
      else (case split_on sep cs of
              [] \<Rightarrow> [[c]]
            | w # ws \<Rightarrow> (c # w) # ws))"
  by pat_completeness auto
termination
  by (relation "measure (\<lambda>(sep, s). length s)") (auto simp: less_Suc_eq_le length_dropWhile_le)

definition split_words :: "jsstring \<Rightarrow> jsstring list" where
  "split_words s = split_on is_separator s"

text \<open>\<^verbatim>\<open>xs.join(sep)\<close>.\<close>

fun join :: "jsstring \<Rightarrow> jsstring list \<Rightarrow> jsstring" where
  "join sep [] = []"
| "join sep [x] = x"
| "join sep (x # y # ys) = x @ sep @ join sep (y # ys)"

text \<open>\<^verbatim>\<open>[...new Set(xs)]\<close>: the first occurrence of each element, in order.\<close>

fun uniq :: "'a list \<Rightarrow> 'a list" where
  "uniq [] = []"
| "uniq (x # xs) = x # uniq (removeAll x xs)"

section \<open>Numbers\<close>

text \<open>
  A count, an index and \<^verbatim>\<open>yearsOfExperience\<close> (which both loaders produce with
  \<^verbatim>\<open>parseInt\<close> on a run of digits) are integers; a relevance score is a real number,
  so the arithmetic on scores is exact, without the rounding of floating point. Template
  literals print an integer in decimal.
\<close>

definition digit :: "nat \<Rightarrow> code_unit" where
  "digit d = of_nat (48 + d)"

function show_nat :: "nat \<Rightarrow> jsstring" where
  "show_nat n = (if n < 10 then [digit n] else show_nat (n div 10) @ [digit (n mod 10)])"
  by pat_completeness auto
termination
  by (relation "measure id") auto

declare show_nat.simps [simp del]

definition show_int :: "int \<Rightarrow> jsstring" where
  "show_int i = (if i < 0 then ascii ''-'' @ show_nat (nat (- i)) else show_nat (nat i))"

section \<open>Data model\<close>

record PersonInfo =
  name :: jsstring
  department :: jsstring
  skills :: "jsstring list"
  qualifications :: "jsstring list"
  selfPR :: jsstring
  experience :: jsstring
  yearsOfExperience :: int

datatype ChunkType = Basic | Skills | Experience | Qualifications

record Metadata =
  md_department :: jsstring
  md_skills :: "jsstring list"
  md_qualifications :: "jsstring list"
  md_yearsOfExperience :: int

record Chunk =
  chunk_id :: jsstring
  content :: jsstring
  personId :: jsstring
  personName :: jsstring
  chunkType :: ChunkType
  metadata :: Metadata

datatype MatchType = Exact | Similar | Category | Aggregation

record AdvancedSearchResult =
  person :: PersonInfo
  relevance :: real
  matchedChunks :: "Chunk list"
  explanation :: jsstring
  matchType :: MatchType

text \<open>The engine object: its two private fields.\<close>

record engine =
  chunks :: "Chunk list"
  persons :: "PersonInfo list"

section \<open>Chunking\<close>

definition person_id :: "nat \<Rightarrow> jsstring" where
  "person_id personIndex = ascii ''person_'' @ show_nat personIndex"

definition person_metadata :: "PersonInfo \<Rightarrow> Metadata" where
  "person_metadata p =
     \<lparr>md_department = department p, md_skills = skills p,
      md_qualifications = qualifications p, md_yearsOfExperience = yearsOfExperience p\<rparr>"

text \<open>
  The body of the \<^verbatim>\<open>forEach\<close> of \<^verbatim>\<open>createChunks\<close>: the chunks pushed for the person at
  \<open>personIndex\<close>. The templates are
  \<^verbatim>\<open>NAME wa DEPARTMENT ni shozoku shite imasu. SELFPR\<close>,
  \<^verbatim>\<open>NAME no sukiru: SKILLS\<close>,
  \<^verbatim>\<open>NAME no kaihatsu keiken: EXPERIENCE (YEARS nen)\<close> with full-width parentheses, and
  \<^verbatim>\<open>NAME no shikaku: QUALIFICATIONS\<close>.
\<close>

definition person_chunks :: "nat \<Rightarrow> PersonInfo \<Rightarrow> Chunk list" where
  "person_chunks personIndex p =
     [\<lparr>chunk_id = person_id personIndex @ ascii ''_basic'',
       content = name p @ [0x306F] @ department p @ [0x306B, 0x6240, 0x5C5E, 0x3057, 0x3066, 0x3044, 0x307E, 0x3059, 0x3002] @ selfPR p,
       personId = person_id personIndex, personName = name p, chunkType = Basic,
       metadata = person_metadata p\<rparr>]
     @ (if length (skills p) > 0 then
         [\<lparr>chunk_id = person_id personIndex @ ascii ''_skills'',
           content = name p @ [0x306E, 0x30B9, 0x30AD, 0x30EB, 0x003A, 0x0020] @ join (ascii '', '') (skills p),
           personId = person_id personIndex, personName = name p, chunkType = Skills,
           metadata = person_metadata p\<rparr>]
        else [])
     @ (if experience p \<noteq> [] then
         [\<lparr>chunk_id = person_id personIndex @ ascii ''_experience'',
           content = name p @ [0x306E, 0x958B, 0x767A, 0x7D4C, 0x9A13, 0x003A, 0x0020] @ experience p @ [0xFF08]
                     @ show_int (yearsOfExperience p) @ [0x5E74, 0xFF09],
           personId = person_id personIndex, personName = name p, chunkType = Experience,
           metadata = person_metadata p\<rparr>]
        else [])
     @ (if length (qualifications p) > 0 then
         [\<lparr>chunk_id = person_id personIndex @ ascii ''_qualifications'',
           content = name p @ [0x306E, 0x8CC7, 0x683C, 0x003A, 0x0020] @ join (ascii '', '') (qualifications p),
           personId = person_id personIndex, personName = name p, chunkType = Qualifications,
           metadata = person_metadata p\<rparr>]
        else [])"

definition createChunks :: "PersonInfo list \<Rightarrow> Chunk list" where
  "createChunks ps = concat (map (\<lambda>(personIndex, p). person_chunks personIndex p) (enumerate 0 ps))"

definition initialize :: "PersonInfo list \<Rightarrow> engine" where
  "initialize ps = \<lparr>chunks = createChunks ps, persons = ps\<rparr>"

section \<open>The Japanese words of the keyword tables\<close>

text \<open>
  Each word is named by its reading; the gloss follows it.
\<close>

abbreviation kaihatsubu :: jsstring where "kaihatsubu \<equiv> [0x958B, 0x767A, 0x90E8]" \<comment> \<open>development department\<close>
abbreviation infurabu :: jsstring where "infurabu \<equiv> [0x30A4, 0x30F3, 0x30D5, 0x30E9, 0x90E8]" \<comment> \<open>infrastructure department\<close>
abbreviation dezainbu :: jsstring where "dezainbu \<equiv> [0x30C7, 0x30B6, 0x30A4, 0x30F3, 0x90E8]" \<comment> \<open>design department\<close>
abbreviation eigyoubu :: jsstring where "eigyoubu \<equiv> [0x55B6, 0x696D, 0x90E8]" \<comment> \<open>sales department\<close>
abbreviation kikakubu :: jsstring where "kikakubu \<equiv> [0x4F01, 0x753B, 0x90E8]" \<comment> \<open>planning department\<close>
abbreviation jinjibu :: jsstring where "jinjibu \<equiv> [0x4EBA, 0x4E8B, 0x90E8]" \<comment> \<open>personnel department\<close>
abbreviation soumubu :: jsstring where "soumubu \<equiv> [0x7DCF, 0x52D9, 0x90E8]" \<comment> \<open>general affairs department\<close>
abbreviation shikaku :: jsstring where "shikaku \<equiv> [0x8CC7, 0x683C]" \<comment> \<open>qualification\<close>
abbreviation keiken :: jsstring where "keiken \<equiv> [0x7D4C, 0x9A13]" \<comment> \<open>experience\<close>
abbreviation nensuu :: jsstring where "nensuu \<equiv> [0x5E74, 0x6570]" \<comment> \<open>number of years\<close>
abbreviation sukiru :: jsstring where "sukiru \<equiv> [0x30B9, 0x30AD, 0x30EB]" \<comment> \<open>skill\<close>
abbreviation gijutsu :: jsstring where "gijutsu \<equiv> [0x6280, 0x8853]" \<comment> \<open>technology\<close>
abbreviation puroguramingu :: jsstring where "puroguramingu \<equiv> [0x30D7, 0x30ED, 0x30B0, 0x30E9, 0x30DF, 0x30F3, 0x30B0]" \<comment> \<open>programming\<close>
abbreviation koodingu :: jsstring where "koodingu \<equiv> [0x30B3, 0x30FC, 0x30C7, 0x30A3, 0x30F3, 0x30B0]" \<comment> \<open>coding\<close>
abbreviation nannin :: jsstring where "nannin \<equiv> [0x4F55, 0x4EBA]" \<comment> \<open>how many people\<close>
abbreviation ninzuu :: jsstring where "ninzuu \<equiv> [0x4EBA, 0x6570]" \<comment> \<open>head count\<close>
abbreviation yuushuu :: jsstring where "yuushuu \<equiv> [0x512A, 0x79C0]" \<comment> \<open>excellent\<close>
abbreviation ooi :: jsstring where "ooi \<equiv> [0x591A, 0x3044]" \<comment> \<open>many\<close>
abbreviation sukunai :: jsstring where "sukunai \<equiv> [0x5C11, 0x306A, 0x3044]" \<comment> \<open>few\<close>
abbreviation heikin :: jsstring where "heikin \<equiv> [0x5E73, 0x5747]" \<comment> \<open>average\<close>
abbreviation toukei :: jsstring where "toukei \<equiv> [0x7D71, 0x8A08]" \<comment> \<open>statistics\<close>
abbreviation bunseki :: jsstring where "bunseki \<equiv> [0x5206, 0x6790]" \<comment> \<open>analysis\<close>
abbreviation toppu :: jsstring where "toppu \<equiv> [0x30C8, 0x30C3, 0x30D7]" \<comment> \<open>top\<close>
abbreviation besuto :: jsstring where "besuto \<equiv> [0x30D9, 0x30B9, 0x30C8]" \<comment> \<open>best\<close>
abbreviation saiyuushuu :: jsstring where "saiyuushuu \<equiv> [0x6700, 0x512A, 0x79C0]" \<comment> \<open>most excellent\<close>
abbreviation saikou :: jsstring where "saikou \<equiv> [0x6700, 0x9AD8]" \<comment> \<open>highest\<close>
abbreviation saitei :: jsstring where "saitei \<equiv> [0x6700, 0x4F4E]" \<comment> \<open>lowest\<close>
abbreviation hikaku :: jsstring where "hikaku \<equiv> [0x6BD4, 0x8F03]" \<comment> \<open>comparison\<close>
abbreviation rankingu :: jsstring where "rankingu \<equiv> [0x30E9, 0x30F3, 0x30AD, 0x30F3, 0x30B0]" \<comment> \<open>ranking\<close>
abbreviation jun_i :: jsstring where "jun_i \<equiv> [0x9806, 0x4F4D]" \<comment> \<open>rank\<close>
abbreviation donokurai :: jsstring where "donokurai \<equiv> [0x3069, 0x306E, 0x304F, 0x3089, 0x3044]" \<comment> \<open>about how much\<close>
abbreviation dorekurai :: jsstring where "dorekurai \<equiv> [0x3069, 0x308C, 0x304F, 0x3089, 0x3044]" \<comment> \<open>about how much\<close>
abbreviation nanwari :: jsstring where "nanwari \<equiv> [0x4F55, 0x5272]" \<comment> \<open>what fraction\<close>
abbreviation nanpaasento :: jsstring where "nanpaasento \<equiv> [0x4F55, 0x30D1, 0x30FC, 0x30BB, 0x30F3, 0x30C8]" \<comment> \<open>what percentage\<close>
abbreviation wariai :: jsstring where "wariai \<equiv> [0x5272, 0x5408]" \<comment> \<open>proportion\<close>
abbreviation hiritsu :: jsstring where "hiritsu \<equiv> [0x6BD4, 0x7387]" \<comment> \<open>ratio\<close>
abbreviation busho :: jsstring where "busho \<equiv> [0x90E8, 0x7F72]" \<comment> \<open>department\<close>
abbreviation nanigaaru :: jsstring where "nanigaaru \<equiv> [0x4F55, 0x304C, 0x3042, 0x308B]" \<comment> \<open>what is there\<close>
abbreviation donna :: jsstring where "donna \<equiv> [0x3069, 0x3093, 0x306A]" \<comment> \<open>what kind of\<close>
abbreviation tokuchou :: jsstring where "tokuchou \<equiv> [0x7279, 0x5FB4]" \<comment> \<open>characteristic\<close>
abbreviation keikou :: jsstring where "keikou \<equiv> [0x50BE, 0x5411]" \<comment> \<open>tendency\<close>
abbreviation risuto :: jsstring where "risuto \<equiv> [0x30EA, 0x30B9, 0x30C8]" \<comment> \<open>list\<close>
abbreviation ichiran :: jsstring where "ichiran \<equiv> [0x4E00, 0x89A7]" \<comment> \<open>overview\<close>
abbreviation shoukai :: jsstring where "shoukai \<equiv> [0x7D39, 0x4ECB]" \<comment> \<open>introduction\<close>
abbreviation oshiete :: jsstring where "oshiete \<equiv> [0x6559, 0x3048, 0x3066]" \<comment> \<open>tell me\<close>
abbreviation setsumei :: jsstring where "setsumei \<equiv> [0x8AAC, 0x660E]" \<comment> \<open>explanation\<close>
abbreviation shousai :: jsstring where "shousai \<equiv> [0x8A73, 0x7D30]" \<comment> \<open>details\<close>
abbreviation gaiyou :: jsstring where "gaiyou \<equiv> [0x6982, 0x8981]" \<comment> \<open>outline\<close>
abbreviation matome :: jsstring where "matome \<equiv> [0x307E, 0x3068, 0x3081]" \<comment> \<open>summary\<close>
abbreviation samarii :: jsstring where "samarii \<equiv> [0x30B5, 0x30DE, 0x30EA, 0x30FC]" \<comment> \<open>summary\<close>
abbreviation kaisha :: jsstring where "kaisha \<equiv> [0x4F1A, 0x793E]" \<comment> \<open>company\<close>
abbreviation soshiki :: jsstring where "soshiki \<equiv> [0x7D44, 0x7E54]" \<comment> \<open>organisation\<close>
abbreviation chiimu :: jsstring where "chiimu \<equiv> [0x30C1, 0x30FC, 0x30E0]" \<comment> \<open>team\<close>
abbreviation menbaa :: jsstring where "menbaa \<equiv> [0x30E1, 0x30F3, 0x30D0, 0x30FC]" \<comment> \<open>member\<close>
abbreviation shain :: jsstring where "shain \<equiv> [0x793E, 0x54E1]" \<comment> \<open>employee\<close>
abbreviation juugyouin :: jsstring where "juugyouin \<equiv> [0x5F93, 0x696D, 0x54E1]" \<comment> \<open>staff\<close>
abbreviation osusume :: jsstring where "osusume \<equiv> [0x304A, 0x3059, 0x3059, 0x3081]" \<comment> \<open>recommended\<close>
abbreviation osusume_k :: jsstring where "osusume_k \<equiv> [0x304A, 0x52E7, 0x3081]" \<comment> \<open>recommended, with the kanji\<close>
abbreviation suishou :: jsstring where "suishou \<equiv> [0x63A8, 0x5968]" \<comment> \<open>recommendation\<close>
abbreviation tekinin :: jsstring where "tekinin \<equiv> [0x9069, 0x4EFB]" \<comment> \<open>well suited\<close>
abbreviation muiteiru :: jsstring where "muiteiru \<equiv> [0x5411, 0x3044, 0x3066, 0x3044, 0x308B]" \<comment> \<open>suited to\<close>
abbreviation tokui :: jsstring where "tokui \<equiv> [0x5F97, 0x610F]" \<comment> \<open>good at\<close>
abbreviation senmon :: jsstring where "senmon \<equiv> [0x5C02, 0x9580]" \<comment> \<open>speciality\<close>
abbreviation kuwashii :: jsstring where "kuwashii \<equiv> [0x8A73, 0x3057, 0x3044]" \<comment> \<open>knowledgeable\<close>
abbreviation kuwashiku :: jsstring where "kuwashiku \<equiv> [0x8A73, 0x3057, 0x304F]" \<comment> \<open>in detail\<close>
abbreviation kuwashiihito :: jsstring where "kuwashiihito \<equiv> [0x8A73, 0x3057, 0x3044, 0x4EBA]" \<comment> \<open>knowledgeable person\<close>
abbreviation senmonka :: jsstring where "senmonka \<equiv> [0x5C02, 0x9580, 0x5BB6]" \<comment> \<open>specialist\<close>
abbreviation ekisupaato :: jsstring where "ekisupaato \<equiv> [0x30A8, 0x30AD, 0x30B9, 0x30D1, 0x30FC, 0x30C8]" \<comment> \<open>expert\<close>
abbreviation beteran :: jsstring where "beteran \<equiv> [0x30D9, 0x30C6, 0x30E9, 0x30F3]" \<comment> \<open>veteran\<close>
abbreviation wakate :: jsstring where "wakate \<equiv> [0x82E5, 0x624B]" \<comment> \<open>junior\<close>
abbreviation shinjin :: jsstring where "shinjin \<equiv> [0x65B0, 0x4EBA]" \<comment> \<open>newcomer\<close>
abbreviation chuuken :: jsstring where "chuuken \<equiv> [0x4E2D, 0x5805]" \<comment> \<open>mid-career\<close>
abbreviation shinia :: jsstring where "shinia \<equiv> [0x30B7, 0x30CB, 0x30A2]" \<comment> \<open>senior\<close>
abbreviation riidaa :: jsstring where "riidaa \<equiv> [0x30EA, 0x30FC, 0x30C0, 0x30FC]" \<comment> \<open>leader\<close>
abbreviation maneejaa :: jsstring where "maneejaa \<equiv> [0x30DE, 0x30CD, 0x30FC, 0x30B8, 0x30E3, 0x30FC]" \<comment> \<open>manager\<close>
abbreviation dekiru :: jsstring where "dekiru \<equiv> [0x3067, 0x304D, 0x308B]" \<comment> \<open>able to\<close>
abbreviation kanou :: jsstring where "kanou \<equiv> [0x53EF, 0x80FD]" \<comment> \<open>possible\<close>
abbreviation taiou :: jsstring where "taiou \<equiv> [0x5BFE, 0x5FDC]" \<comment> \<open>handling\<close>
abbreviation taioukanou :: jsstring where "taioukanou \<equiv> [0x5BFE, 0x5FDC, 0x53EF, 0x80FD]" \<comment> \<open>can handle\<close>
abbreviation taioushiteiru :: jsstring where "taioushiteiru \<equiv> [0x5BFE, 0x5FDC, 0x3057, 0x3066, 0x3044, 0x308B]" \<comment> \<open>is handling\<close>
abbreviation tantou :: jsstring where "tantou \<equiv> [0x62C5, 0x5F53]" \<comment> \<open>in charge\<close>
abbreviation mentaa :: jsstring where "mentaa \<equiv> [0x30E1, 0x30F3, 0x30BF, 0x30FC]" \<comment> \<open>mentor\<close>
abbreviation shidou :: jsstring where "shidou \<equiv> [0x6307, 0x5C0E]" \<comment> \<open>guidance\<close>
abbreviation seichou :: jsstring where "seichou \<equiv> [0x6210, 0x9577]" \<comment> \<open>growth\<close>
abbreviation keikenhoufu :: jsstring where "keikenhoufu \<equiv> [0x7D4C, 0x9A13, 0x8C4A, 0x5BCC]" \<comment> \<open>richly experienced\<close>
abbreviation fukusuu :: jsstring where "fukusuu \<equiv> [0x8907, 0x6570]" \<comment> \<open>several\<close>
abbreviation tayou :: jsstring where "tayou \<equiv> [0x591A, 0x69D8]" \<comment> \<open>diverse\<close>
abbreviation nintei :: jsstring where "nintei \<equiv> [0x8A8D, 0x5B9A]" \<comment> \<open>certified\<close>
abbreviation kaihatsu :: jsstring where "kaihatsu \<equiv> [0x958B, 0x767A]" \<comment> \<open>development\<close>
abbreviation infura :: jsstring where "infura \<equiv> [0x30A4, 0x30F3, 0x30D5, 0x30E9]" \<comment> \<open>infrastructure\<close>
abbreviation dezain :: jsstring where "dezain \<equiv> [0x30C7, 0x30B6, 0x30A4, 0x30F3]" \<comment> \<open>design\<close>

section \<open>Query classification\<close>

datatype QueryType = exact_search | fuzzy_search | analytical | general_question

definition exactKeywords :: "jsstring list" where
  "exactKeywords =
     map ascii [''python'', ''java'', ''javascript'', ''react'', ''vue'', ''angular'', ''node'',
                ''aws'', ''azure'', ''gcp'', ''docker'', ''kubernetes'', ''sql'', ''mongodb'',
                ''redis'', ''html'', ''css'', ''php'', ''ruby'', ''go'']
     @ [kaihatsubu, infurabu, dezainbu, eigyoubu, kikakubu, jinjibu, soumubu,
        shikaku, keiken, nensuu, sukiru, gijutsu, puroguramingu, koodingu]"

definition analyticalKeywords :: "jsstring list" where
  "analyticalKeywords =
     [nannin, ninzuu, yuushuu, keiken, nensuu, ooi, sukunai, heikin, toukei, bunseki,
      toppu, besuto, saiyuushuu, saikou, saitei, hikaku, rankingu, jun_i,
      donokurai, dorekurai, nanwari, nanpaasento, wariai, hiritsu]"

definition generalKeywords :: "jsstring list" where
  "generalKeywords =
     [busho, nanigaaru, donna, tokuchou, keikou, hikaku, risuto, ichiran,
      shoukai, oshiete, setsumei, shousai, gaiyou, matome, samarii,
      kaisha, soshiki, chiimu, menbaa, shain, juugyouin]"

definition conversationalKeywords :: "jsstring list" where
  "conversationalKeywords =
     [osusume, osusume_k, suishou, tekinin, muiteiru, tokui, senmon,
      kuwashii, kuwashiku, kuwashiihito, senmonka, ekisupaato, beteran,
      wakate, shinjin, chuuken, shinia, riidaa, maneejaa,
      dekiru, kanou, taiou, taioukanou, taioushiteiru, tantou]"

definition analyzeQueryType :: "jsstring \<Rightarrow> QueryType" where
  "analyzeQueryType query =
     (let queryLower = toLowerCase query in
      if list_ex (\<lambda>keyword. js_includes queryLower keyword) exactKeywords then exact_search
      else if list_ex (\<lambda>keyword. js_includes queryLower keyword) conversationalKeywords
        then general_question
      else if list_ex (\<lambda>keyword. js_includes queryLower keyword) analyticalKeywords
        then analytical
      else if list_ex (\<lambda>keyword. js_includes queryLower keyword) generalKeywords
        then general_question
      else fuzzy_search)"

section \<open>Objects used as dictionaries\<close>

text \<open>
  The frequency tables and the statistics tables are object literals \<^verbatim>\<open>{}\<close>, which
  inherit the members of \<^verbatim>\<open>Object.prototype\<close>. Reading a key that is not an own property
  gives \<^verbatim>\<open>undefined\<close>, except for these twelve names, where it gives the inherited
  member: a function or an object, which is truthy and is not a number. A table is
  modelled by the list of its own properties in the order of their creation.
\<close>

definition object_prototype_members :: "jsstring list" where
  "object_prototype_members =
     map ascii [''constructor'', ''__defineGetter__'', ''__defineSetter__'', ''hasOwnProperty'',
                ''__lookupGetter__'', ''__lookupSetter__'', ''isPrototypeOf'',
                ''propertyIsEnumerable'', ''toString'', ''valueOf'', ''__proto__'',
                ''toLocaleString'']"

text \<open>
  \<^verbatim>\<open>Object.entries\<close> lists the own keys that are array indices (canonical decimal
  numbers below \<open>2\<^sup>3\<^sup>2 - 1\<close>) first, in ascending order, and then the other keys in
  the order of their creation.
\<close>

definition parse_nat :: "jsstring \<Rightarrow> nat" where
  "parse_nat s = foldl (\<lambda>n c. 10 * n + (unat c - 48)) 0 s"

definition is_array_index :: "jsstring \<Rightarrow> bool" where
  "is_array_index k \<longleftrightarrow>
     k \<noteq> [] \<and> list_all (\<lambda>c. 0x30 \<le> c \<and> c \<le> 0x39) k \<and> k = show_nat (parse_nat k)
     \<and> parse_nat k < 4294967295"

definition object_entries :: "(jsstring \<times> 'v) list \<Rightarrow> (jsstring \<times> 'v) list" where
  "object_entries obj =
     sort_key (\<lambda>(k, v). parse_nat k) (filter (\<lambda>(k, v). is_array_index k) obj)
     @ filter (\<lambda>(k, v). \<not> is_array_index k) obj"

section \<open>Cosine similarity\<close>

text \<open>
  The value of an expression of the similarity computation: a real number, or \<open>NaN\<close>
  for what is not a number once it is used in a product (a string or an inherited member).
  The counts and their sums are integers, which the code computes exactly. The two square
  roots, their product and the quotient are exact here, where the code rounds each of
  them to double precision: the quotient of the code can differ from the one below in the
  last places, and can lie above 1 when the exact quotient is 1.
\<close>

datatype number = NaN | Num real

fun n_add :: "number \<Rightarrow> number \<Rightarrow> number" where
  "n_add (Num a) (Num b) = Num (a + b)"
| "n_add _ _ = NaN"

fun n_mul :: "number \<Rightarrow> number \<Rightarrow> number" where
  "n_mul (Num a) (Num b) = Num (a * b)"
| "n_mul _ _ = NaN"

fun n_sqrt :: "number \<Rightarrow> number" where
  "n_sqrt (Num a) = Num (sqrt a)"
| "n_sqrt NaN = NaN"

text \<open>Only used with a divisor that is not zero.\<close>

fun n_div :: "number \<Rightarrow> number \<Rightarrow> number" where
  "n_div (Num a) (Num b) = Num (a / b)"
| "n_div _ _ = NaN"

type_synonym freq = "(jsstring \<times> number) list"

text \<open>
  \<^verbatim>\<open>freq[word] || 0\<close>. An own property holds a positive count or a string, both
  truthy; an inherited member is truthy too.
\<close>

definition freq_read :: "freq \<Rightarrow> jsstring \<Rightarrow> number" where
  "freq_read f word =
     (case map_of f word of
        Some v \<Rightarrow> v
      | None \<Rightarrow> if word \<in> set object_prototype_members then NaN else Num 0)"

text \<open>
  \<^verbatim>\<open>freq[word] = (freq[word] || 0) + 1\<close>. Adding 1 to a member or to a string gives a
  string. The assignment to \<^verbatim>\<open>__proto__\<close> goes to the inherited setter, which ignores a
  value that is not an object, so that no own property is created.
\<close>

definition freq_increment :: "jsstring \<Rightarrow> freq \<Rightarrow> freq" where
  "freq_increment word f =
     (if word = ascii ''__proto__'' then f
      else AList.update word (n_add (freq_read f word) (Num 1)) f)"

text \<open>The body of the \<^verbatim>\<open>forEach\<close> that counts the words, and the table it builds.\<close>

definition count_word :: "jsstring \<Rightarrow> freq \<Rightarrow> freq" where
  "count_word word f =
     (let normalizedWord = trim (toLowerCase word)
      in if length normalizedWord > 0 then freq_increment normalizedWord f else f)"

definition word_frequencies :: "jsstring list \<Rightarrow> freq" where
  "word_frequencies ws = fold count_word ws []"

text \<open>
  The three sums run over the set of the keys of both tables; sums of exact numbers do
  not depend on the order of the keys.
\<close>

definition calculateCosineSimilarity :: "jsstring \<Rightarrow> jsstring \<Rightarrow> number" where
  "calculateCosineSimilarity query text =
     (let queryWords = filter (\<lambda>word. length word > 0) (split_words query);
          textWords = filter (\<lambda>word. length word > 0) (split_words text)
      in if length queryWords = 0 \<or> length textWords = 0 then Num 0
         else
           let queryFreq = word_frequencies queryWords;
               textFreq = word_frequencies textWords;
               allWords = uniq (map fst queryFreq @ map fst textFreq);
               dotProduct = fold (\<lambda>word acc.
                   n_add acc (n_mul (freq_read queryFreq word) (freq_read textFreq word)))
                 allWords (Num 0);
               queryMagnitude = fold (\<lambda>word acc.
                   n_add acc (n_mul (freq_read queryFreq word) (freq_read queryFreq word)))
                 allWords (Num 0);
               textMagnitude = fold (\<lambda>word acc.
                   n_add acc (n_mul (freq_read textFreq word) (freq_read textFreq word)))
                 allWords (Num 0)
           in if queryMagnitude = Num 0 \<or> textMagnitude = Num 0 then Num 0
              else n_div dotProduct (n_mul (n_sqrt queryMagnitude) (n_sqrt textMagnitude)))"

section \<open>Scoring one person\<close>

definition checkPartialMatch :: "jsstring \<Rightarrow> PersonInfo \<Rightarrow> real" where
  "checkPartialMatch query p =
     (let maxScore = 0;
          maxScore = (if js_includes (toLowerCase (department p)) query
                         \<or> js_includes query (toLowerCase (department p))
                      then max maxScore 0.8 else maxScore);
          maxScore = fold (\<lambda>skill maxScore.
                        if js_includes (toLowerCase skill) query
                           \<or> js_includes query (toLowerCase skill)
                        then max maxScore 0.8 else maxScore) (skills p) maxScore;
          maxScore = fold (\<lambda>qualification maxScore.
                        if js_includes (toLowerCase qualification) query
                           \<or> js_includes query (toLowerCase qualification)
                        then max maxScore 0.8 else maxScore) (qualifications p) maxScore
      in maxScore)"

definition checkExactMatch :: "jsstring \<Rightarrow> PersonInfo \<Rightarrow> real" where
  "checkExactMatch query p =
     (if js_includes query (toLowerCase (department p)) then 1.0
      else if list_ex (\<lambda>skill. js_includes query (toLowerCase skill)) (skills p) then 1.0
      else if list_ex (\<lambda>qualification. js_includes query (toLowerCase qualification))
                (qualifications p) then 1.0
      else if js_includes query (toLowerCase (name p)) then 1.0
      else let partialMatch = checkPartialMatch query p
           in if partialMatch > 0.7 then partialMatch else 0)"

definition determineMatchType :: "jsstring \<Rightarrow> PersonInfo \<Rightarrow> real \<Rightarrow> MatchType" where
  "determineMatchType query p relevance' =
     (if relevance' \<ge> 1.0 then Exact
      else if js_includes query (toLowerCase (name p)) then Exact
      else if js_includes query (toLowerCase (department p)) then Exact
      else if list_ex (\<lambda>skill. js_includes query (toLowerCase skill)) (skills p) then Exact
      else if list_ex (\<lambda>qual. js_includes query (toLowerCase qual)) (qualifications p)
        then Exact
      else if relevance' > 0.6 then Similar
      else Category)"

text \<open>
  The four labels: very high, high, medium and low relevance.
\<close>

definition generateExplanation ::
  "jsstring \<Rightarrow> PersonInfo \<Rightarrow> Chunk list \<Rightarrow> real \<Rightarrow> jsstring" where
  "generateExplanation query p matched relevance' =
     (if relevance' > 0.8 then [0x975E, 0x5E38, 0x306B, 0x9AD8, 0x3044, 0x95A2, 0x9023, 0x6027]
      else if relevance' > 0.6 then [0x9AD8, 0x3044, 0x95A2, 0x9023, 0x6027]
      else if relevance' > 0.4 then [0x4E2D, 0x7A0B, 0x5EA6, 0x306E, 0x95A2, 0x9023, 0x6027]
      else [0x4F4E, 0x3044, 0x95A2, 0x9023, 0x6027])"

definition isConversationalQuery :: "jsstring \<Rightarrow> bool" where
  "isConversationalQuery query =
     list_ex (\<lambda>keyword. js_includes query keyword)
       [osusume, suishou, tekinin, muiteiru, tokui, senmon,
        kuwashii, kuwashiku, senmonka, ekisupaato, beteran,
        wakate, shinjin, chuuken, shinia, riidaa, maneejaa,
        dekiru, kanou, taiou, taioukanou, taioushiteiru, tantou,
        mentaa, shidou, seichou, yuushuu, keikenhoufu]"

definition calculateConversationalScore :: "jsstring \<Rightarrow> PersonInfo \<Rightarrow> real" where
  "calculateConversationalScore query p =
     (let score = 0;
          score = (if js_includes query beteran \<or> js_includes query shinia
                      \<or> js_includes query keikenhoufu
                   then (if yearsOfExperience p \<ge> 5 then score + 0.3
                         else if yearsOfExperience p \<ge> 3 then score + 0.2 else score)
                   else score);
          score = (if js_includes query wakate \<or> js_includes query shinjin
                   then (if yearsOfExperience p \<le> 2 then score + 0.3
                         else if yearsOfExperience p \<le> 3 then score + 0.2 else score)
                   else score);
          score = (if js_includes query fukusuu \<or> js_includes query tayou
                   then (if length (skills p) \<ge> 3 then score + 0.2 else score)
                   else score);
          score = (if js_includes query shikaku \<or> js_includes query nintei
                   then (if length (qualifications p) > 0 then score + 0.2 else score)
                   else score);
          score = (if js_includes query kaihatsu \<and> js_includes (department p) kaihatsu
                   then score + 0.3 else score);
          score = (if js_includes query infura \<and> js_includes (department p) infura
                   then score + 0.3 else score);
          score = (if js_includes query dezain \<and> js_includes (department p) dezain
                   then score + 0.3 else score)
      in score)"

section \<open>The search over all persons\<close>

text \<open>
  The scan of a person's chunks when there is no exact or partial match: a chunk counts
  when its similarity is above 0.05 (the comparison is false for \<open>NaN\<close>).
\<close>

definition similarity_scan :: "jsstring \<Rightarrow> Chunk list \<Rightarrow> real \<times> Chunk list" where
  "similarity_scan queryLower cs =
     fold (\<lambda>chunk (maxRelevance, matched).
             case calculateCosineSimilarity queryLower (toLowerCase (content chunk)) of
               Num relevance' \<Rightarrow>
                 if relevance' > 0.05 then (max maxRelevance relevance', matched @ [chunk])
                 else (maxRelevance, matched)
             | NaN \<Rightarrow> (maxRelevance, matched))
          cs (0, [])"

text \<open>
  The body of the \<^verbatim>\<open>forEach\<close> of \<^verbatim>\<open>performSearch\<close>: the result pushed for the person at
  \<open>personIndex\<close>, if any.
\<close>

definition score_person ::
  "engine \<Rightarrow> jsstring \<Rightarrow> nat \<Rightarrow> PersonInfo \<Rightarrow> AdvancedSearchResult option" where
  "score_person st queryLower personIndex p =
     (let own = filter (\<lambda>chunk. personId chunk = person_id personIndex) (chunks st);
          exactMatch = checkExactMatch queryLower p;
          (maxRelevance, matched) =
             (if exactMatch > 0 then (exactMatch, own) else similarity_scan queryLower own);
          maxRelevance =
             (if isConversationalQuery queryLower
              then max maxRelevance (calculateConversationalScore queryLower p)
              else maxRelevance)
      in if maxRelevance > 0
         then Some \<lparr>person = p, relevance = maxRelevance, matchedChunks = matched,
                    explanation = generateExplanation queryLower p matched maxRelevance,
                    matchType = determineMatchType queryLower p maxRelevance\<rparr>
         else None)"

text \<open>
  \<^verbatim>\<open>Array.prototype.sort\<close> is stable; with the comparator
  \<^verbatim>\<open>(a, b) => b.relevance - a.relevance\<close> it is the stable sort by descending relevance.
\<close>

definition performSearch :: "engine \<Rightarrow> jsstring \<Rightarrow> AdvancedSearchResult list" where
  "performSearch st query =
     (let queryLower = toLowerCase query;
          results = List.map_filter (\<lambda>(personIndex, p). score_person st queryLower personIndex p)
                      (enumerate 0 (persons st))
      in take 5 (sort_key (\<lambda>r. - relevance r) results))"

section \<open>Aggregation results\<close>

datatype AggType = CountType | ListType | StatisticsType

record DepartmentStats =
  dept_counts :: "(jsstring \<times> nat) list"
  dept_skills :: "(jsstring \<times> jsstring list) list"
  dept_total :: nat

record SkillStats =
  skill_counts :: "(jsstring \<times> nat) list"
  skill_departments :: "(jsstring \<times> jsstring list) list"
  skill_total :: nat

text \<open>
  \<^verbatim>\<open>Math.max()\<close> and \<^verbatim>\<open>Math.min()\<close> of no argument are the infinities, and the average
  of no number is \<open>NaN\<close>.
\<close>

datatype extremum = NegInfinity | PosInfinity | Finite int

record ExperienceStats =
  exp_average :: number
  exp_max :: extremum
  exp_min :: extremum
  exp_total :: nat

datatype AggValue =
    NumberValue nat
  | StringsValue "jsstring list"
  | DepartmentStatsValue DepartmentStats
  | SkillStatsValue SkillStats
  | ExperienceStatsValue ExperienceStats

datatype Details =
    DepartmentCount jsstring nat nat
  | SkillCount jsstring nat nat
  | DepartmentList "jsstring list"
  | SkillList "jsstring list"
  | StatisticsDetails AggValue

record AggregationResult =
  agg_type :: AggType
  agg_value :: AggValue
  description :: jsstring
  details :: "Details option"

record SearchResponse =
  results :: "AdvancedSearchResult list"
  aggregation :: "AggregationResult option"
  queryType :: QueryType
  shouldUseGemini :: bool

text \<open>A method call on \<^verbatim>\<open>undefined\<close> or on a value that lacks the method.\<close>

datatype error = TypeError

section \<open>Statistics\<close>

text \<open>
  \<^verbatim>\<open>analyzeDepartments\<close>. For a department named like a member of \<^verbatim>\<open>Object.prototype\<close>
  the test \<^verbatim>\<open>!departmentCounts[d]\<close> is false, the tables are not initialised, and
  \<^verbatim>\<open>departmentSkills[d].push\<close> is a call of a method the member does not have.
\<close>

fun analyzeDepartments_loop ::
  "PersonInfo list \<Rightarrow> (jsstring \<times> nat) list \<Rightarrow> (jsstring \<times> jsstring list) list
   \<Rightarrow> error + (jsstring \<times> nat) list \<times> (jsstring \<times> jsstring list) list" where
  "analyzeDepartments_loop [] departmentCounts departmentSkills =
     Inr (departmentCounts, departmentSkills)"
| "analyzeDepartments_loop (p # ps) departmentCounts departmentSkills =
     (if department p \<in> set object_prototype_members then Inl TypeError
      else
        let (departmentCounts, departmentSkills) =
              (case map_of departmentCounts (department p) of
                 None \<Rightarrow> (AList.update (department p) 0 departmentCounts,
                          AList.update (department p) [] departmentSkills)
               | Some n \<Rightarrow> (departmentCounts, departmentSkills));
            departmentCounts =
              AList.update (department p)
                (Suc (case map_of departmentCounts (department p) of Some n \<Rightarrow> n | None \<Rightarrow> 0))
                departmentCounts;
            departmentSkills =
              AList.update (department p)
                ((case map_of departmentSkills (department p) of Some l \<Rightarrow> l | None \<Rightarrow> [])
                 @ skills p)
                departmentSkills
        in analyzeDepartments_loop ps departmentCounts departmentSkills)"

definition analyzeDepartments :: "engine \<Rightarrow> error + DepartmentStats" where
  "analyzeDepartments st =
     (case analyzeDepartments_loop (persons st) [] [] of
        Inl e \<Rightarrow> Inl e
      | Inr (departmentCounts, departmentSkills) \<Rightarrow>
          Inr \<lparr>dept_counts = departmentCounts, dept_skills = departmentSkills,
               dept_total = length (persons st)\<rparr>)"

text \<open>
  \<^verbatim>\<open>analyzeSkills\<close>: the inner loop over the skills of one person, then the loop over the
  persons. A skill named like a member of \<^verbatim>\<open>Object.prototype\<close> fails at
  \<^verbatim>\<open>skillDepartments[skill].includes\<close>.
\<close>

fun analyzeSkills_person ::
  "jsstring \<Rightarrow> jsstring list \<Rightarrow> (jsstring \<times> nat) list \<Rightarrow> (jsstring \<times> jsstring list) list
   \<Rightarrow> error + (jsstring \<times> nat) list \<times> (jsstring \<times> jsstring list) list" where
  "analyzeSkills_person dept [] skillCounts skillDepartments = Inr (skillCounts, skillDepartments)"
| "analyzeSkills_person dept (skill # rest) skillCounts skillDepartments =
     (if skill \<in> set object_prototype_members then Inl TypeError
      else
        let (skillCounts, skillDepartments) =
              (case map_of skillCounts skill of
                 None \<Rightarrow> (AList.update skill 0 skillCounts, AList.update skill [] skillDepartments)
               | Some n \<Rightarrow> (skillCounts, skillDepartments));
            skillCounts =
              AList.update skill
                (Suc (case map_of skillCounts skill of Some n \<Rightarrow> n | None \<Rightarrow> 0)) skillCounts;
            depts = (case map_of skillDepartments skill of Some l \<Rightarrow> l | None \<Rightarrow> []);
            skillDepartments =
              (if dept \<notin> set depts then AList.update skill (depts @ [dept]) skillDepartments
               else skillDepartments)
        in analyzeSkills_person dept rest skillCounts skillDepartments)"

fun analyzeSkills_loop ::
  "PersonInfo list \<Rightarrow> (jsstring \<times> nat) list \<Rightarrow> (jsstring \<times> jsstring list) list
   \<Rightarrow> error + (jsstring \<times> nat) list \<times> (jsstring \<times> jsstring list) list" where
  "analyzeSkills_loop [] skillCounts skillDepartments = Inr (skillCounts, skillDepartments)"
| "analyzeSkills_loop (p # ps) skillCounts skillDepartments =
     (case analyzeSkills_person (department p) (skills p) skillCounts skillDepartments of
        Inl e \<Rightarrow> Inl e
      | Inr (skillCounts, skillDepartments) \<Rightarrow>
          analyzeSkills_loop ps skillCounts skillDepartments)"

definition analyzeSkills :: "engine \<Rightarrow> error + SkillStats" where
  "analyzeSkills st =
     (case analyzeSkills_loop (persons st) [] [] of
        Inl e \<Rightarrow> Inl e
      | Inr (skillCounts, skillDepartments) \<Rightarrow>
          Inr \<lparr>skill_counts = skillCounts, skill_departments = skillDepartments,
               skill_total = length (persons st)\<rparr>)"

text \<open>
  \<^verbatim>\<open>analyzeExperience\<close>. \<^verbatim>\<open>Math.round(average * 10) / 10\<close> rounds to one decimal, halves
  upwards.
\<close>

definition analyzeExperience :: "engine \<Rightarrow> ExperienceStats" where
  "analyzeExperience st =
     (let experienceYears = map yearsOfExperience (persons st)
      in \<lparr>exp_average =
             (if experienceYears = [] then NaN
              else Num (real_of_int
                     \<lfloor>real_of_int (sum_list experienceYears) / real (length experienceYears) * 10
                      + 1 / 2\<rfloor> / 10)),
           exp_max = (if experienceYears = [] then NegInfinity
                      else Finite (fold max experienceYears (hd experienceYears))),
           exp_min = (if experienceYears = [] then PosInfinity
                      else Finite (fold min experienceYears (hd experienceYears))),
           exp_total = length (persons st)\<rparr>)"

text \<open>
  \<^verbatim>\<open>findTopPerformers\<close>: the three best by a weighted sum; the explanation reads
  \<^verbatim>\<open>sukiru: N ko, shikaku: M ko, keiken: Y nen\<close>.
\<close>

definition findTopPerformers :: "engine \<Rightarrow> AdvancedSearchResult list" where
  "findTopPerformers st =
     (let scoredPersons = map (\<lambda>p.
            let skillScore = real (length (skills p)) * 0.3;
                qualificationScore = real (length (qualifications p)) * 0.2;
                experienceScore = real_of_int (yearsOfExperience p) * 0.1;
                totalScore = skillScore + qualificationScore + experienceScore
            in \<lparr>person = p, relevance = totalScore, matchedChunks = [],
                 explanation = [0x30B9, 0x30AD, 0x30EB, 0x003A, 0x0020] @ show_nat (length (skills p)) @ [0x500B, 0x002C, 0x0020, 0x8CC7, 0x683C, 0x003A, 0x0020]
                   @ show_nat (length (qualifications p)) @ [0x500B, 0x002C, 0x0020, 0x7D4C, 0x9A13, 0x003A, 0x0020]
                   @ show_int (yearsOfExperience p) @ [0x5E74],
                 matchType = Similar\<rparr>) (persons st)
      in take 3 (sort_key (\<lambda>r. - relevance r) scoredPersons))"

definition getUniqueDepartments :: "engine \<Rightarrow> jsstring list" where
  "getUniqueDepartments st = uniq (map department (persons st))"

definition getUniqueSkills :: "engine \<Rightarrow> jsstring list" where
  "getUniqueSkills st = (let allSkills = concat (map skills (persons st)) in uniq allSkills)"

section \<open>Rendering the statistics\<close>

text \<open>
  \<^verbatim>\<open>formatDepartmentAnalysis\<close>: a header, then for each department its head count and its
  first three distinct skills, and for a query with \<open>yuushuu\<close> the largest department.
  With no department at all, \<^verbatim>\<open>topDept\<close> is \<^verbatim>\<open>undefined\<close> and reading \<^verbatim>\<open>topDept[0]\<close> fails.
\<close>

definition formatDepartmentAnalysis :: "DepartmentStats \<Rightarrow> jsstring \<Rightarrow> error + jsstring" where
  "formatDepartmentAnalysis stats query =
     (let description = [0x90E8, 0x7F72, 0x5225, 0x306E, 0x5206, 0x6790, 0x7D50, 0x679C, 0xFF1A, 0x000A, 0x000A];
          description = fold (\<lambda>(dept, count') description.
              let deptSkills = (case map_of (dept_skills stats) dept of Some l \<Rightarrow> l | None \<Rightarrow> []);
                  uniqueSkills = uniq deptSkills
              in description @ dept @ ascii '': '' @ show_nat count' @ [0x4EBA, 0x000A]
                 @ [0x0020, 0x0020, 0x4E3B, 0x306A, 0x30B9, 0x30AD, 0x30EB, 0x003A, 0x0020] @ join (ascii '', '') (take 3 uniqueSkills) @ [0x000A, 0x000A])
            (object_entries (dept_counts stats)) description
      in if js_includes query yuushuu
         then (case sort_key (\<lambda>(dept, count'). - int count') (object_entries (dept_counts stats)) of
                 [] \<Rightarrow> Inl TypeError
               | (dept, count') # rest \<Rightarrow>
                   Inr (description @ [0x6700, 0x3082, 0x4EBA, 0x6570, 0x304C, 0x591A, 0x3044, 0x90E8, 0x7F72, 0x306F] @ dept @ [0xFF08] @ show_nat count'
                        @ [0x4EBA, 0xFF09, 0x3067, 0x3059, 0x3002]))
         else Inr description)"

text \<open>
  \<^verbatim>\<open>formatSkillAnalysis\<close>: the five most frequent skills with their departments, and
  for a query with \<open>yuushuu\<close> the most frequent skill, which fails when there is no skill.
\<close>

definition formatSkillAnalysis :: "SkillStats \<Rightarrow> jsstring \<Rightarrow> error + jsstring" where
  "formatSkillAnalysis stats query =
     (let description = [0x30B9, 0x30AD, 0x30EB, 0x5225, 0x306E, 0x5206, 0x6790, 0x7D50, 0x679C, 0xFF1A, 0x000A, 0x000A];
          sortedSkills = sort_key (\<lambda>(skill, count'). - int count')
                           (object_entries (skill_counts stats));
          description = fold (\<lambda>(skill, count') description.
              let depts = (case map_of (skill_departments stats) skill of
                             Some l \<Rightarrow> l | None \<Rightarrow> [])
              in description @ skill @ ascii '': '' @ show_nat count' @ [0x4EBA, 0x304C, 0x4FDD, 0x6709, 0x000A]
                 @ [0x0020, 0x0020, 0x90E8, 0x7F72, 0x003A, 0x0020] @ join (ascii '', '') depts @ [0x000A, 0x000A])
            (take 5 sortedSkills) description
      in if js_includes query yuushuu
         then (case sortedSkills of
                 [] \<Rightarrow> Inl TypeError
               | (skill, count') # rest \<Rightarrow>
                   Inr (description @ [0x6700, 0x3082, 0x591A, 0x304F, 0x306E, 0x4EBA, 0x304C, 0x4FDD, 0x6709, 0x3057, 0x3066, 0x3044, 0x308B, 0x30B9, 0x30AD, 0x30EB, 0x306F] @ skill @ [0xFF08]
                        @ show_nat count' @ [0x4EBA, 0xFF09, 0x3067, 0x3059, 0x3002]))
         else Inr description)"

text \<open>A number with at most one decimal, as a template literal prints it.\<close>

definition show_tenths :: "real \<Rightarrow> jsstring" where
  "show_tenths x =
     (let k = \<lfloor>x * 10 + 1 / 2\<rfloor>
      in if k mod 10 = 0 then show_int (k div 10)
         else (if k < 0 then ascii ''-'' else []) @ show_nat (nat \<bar>k\<bar> div 10) @ ascii ''.''
              @ [digit (nat \<bar>k\<bar> mod 10)])"

definition show_number :: "number \<Rightarrow> jsstring" where
  "show_number x = (case x of NaN \<Rightarrow> ascii ''NaN'' | Num r \<Rightarrow> show_tenths r)"

definition show_extremum :: "extremum \<Rightarrow> jsstring" where
  "show_extremum x =
     (case x of NegInfinity \<Rightarrow> ascii ''-Infinity'' | PosInfinity \<Rightarrow> ascii ''Infinity''
      | Finite i \<Rightarrow> show_int i)"

definition formatExperienceAnalysis :: "engine \<Rightarrow> ExperienceStats \<Rightarrow> jsstring \<Rightarrow> jsstring" where
  "formatExperienceAnalysis st stats query =
     (let description = [0x7D4C, 0x9A13, 0x5E74, 0x6570, 0x306E, 0x5206, 0x6790, 0x7D50, 0x679C, 0xFF1A, 0x000A, 0x000A];
          description = description @ [0x5E73, 0x5747, 0x7D4C, 0x9A13, 0x5E74, 0x6570, 0x003A, 0x0020] @ show_number (exp_average stats) @ [0x5E74, 0x000A];
          description = description @ [0x6700, 0x9AD8, 0x7D4C, 0x9A13, 0x5E74, 0x6570, 0x003A, 0x0020] @ show_extremum (exp_max stats) @ [0x5E74, 0x000A];
          description = description @ [0x6700, 0x4F4E, 0x7D4C, 0x9A13, 0x5E74, 0x6570, 0x003A, 0x0020] @ show_extremum (exp_min stats) @ [0x5E74, 0x000A];
          description = description @ [0x7DCF, 0x4EBA, 0x6570, 0x003A, 0x0020] @ show_nat (exp_total stats) @ [0x4EBA, 0x000A, 0x000A]
      in if js_includes query yuushuu
         then let experiencedPersons = filter (\<lambda>p.
                    case exp_average stats of
                      NaN \<Rightarrow> False
                    | Num average \<Rightarrow> real_of_int (yearsOfExperience p) \<ge> average) (persons st)
              in description @ [0x5E73, 0x5747, 0x4EE5, 0x4E0A, 0x306E, 0x7D4C, 0x9A13, 0x3092, 0x6301, 0x3064, 0x4EBA, 0x306F] @ show_nat (length experiencedPersons)
                 @ [0x4EBA, 0x3067, 0x3059, 0x3002]
         else description)"

section \<open>Aggregation queries\<close>

text \<open>
  \<^verbatim>\<open>detectAggregationQuery\<close>. The descriptions read
  \<^verbatim>\<open>DEPARTMENT ni shozoku shite iru hito wa N nin desu.\<close> and
  \<^verbatim>\<open>SKILL sukiru o motsu hito wa N nin desu.\<close>
\<close>

definition department_count :: "engine \<Rightarrow> jsstring \<Rightarrow> jsstring \<Rightarrow> AggregationResult" where
  "department_count st token dept =
     (let count' = length (filter (\<lambda>p. js_includes (department p) token) (persons st))
      in \<lparr>agg_type = CountType, agg_value = NumberValue count',
           description = dept @ [0x306B, 0x6240, 0x5C5E, 0x3057, 0x3066, 0x3044, 0x308B, 0x4EBA, 0x306F] @ show_nat count' @ [0x4EBA, 0x3067, 0x3059, 0x3002],
           details = Some (DepartmentCount dept count' (length (persons st)))\<rparr>)"

definition detectAggregationQuery :: "engine \<Rightarrow> jsstring \<Rightarrow> AggregationResult option" where
  "detectAggregationQuery st query =
     (let queryLower = toLowerCase query;
          skills_part =
            (if js_includes queryLower sukiru \<and> js_includes queryLower nannin
             then (case find (\<lambda>skill. js_includes queryLower skill)
                          (map ascii [''python'', ''javascript'', ''java'', ''react'', ''aws'',
                                      ''docker'']) of
                     Some skill \<Rightarrow>
                       let count' = length (filter (\<lambda>p.
                             list_ex (\<lambda>s. js_includes (toLowerCase s) skill) (skills p))
                             (persons st))
                       in Some \<lparr>agg_type = CountType, agg_value = NumberValue count',
                                description = skill @ [0x30B9, 0x30AD, 0x30EB, 0x3092, 0x6301, 0x3064, 0x4EBA, 0x306F] @ show_nat count'
                                              @ [0x4EBA, 0x3067, 0x3059, 0x3002],
                                details = Some (SkillCount skill count' (length (persons st)))\<rparr>
                   | None \<Rightarrow> None)
             else None)
      in if js_includes queryLower nannin \<or> js_includes queryLower ninzuu
         then (if js_includes queryLower kaihatsubu
               then Some (department_count st kaihatsu kaihatsubu)
               else if js_includes queryLower infura
               then Some (department_count st infura infurabu)
               else if js_includes queryLower dezain
               then Some (department_count st dezain dezainbu)
               else skills_part)
         else skills_part)"

section \<open>The four strategies and the entry point\<close>

definition handleExactSearch :: "engine \<Rightarrow> jsstring \<Rightarrow> SearchResponse" where
  "handleExactSearch st query =
     (let rs = performSearch st query
      in \<lparr>results = rs, aggregation = None, queryType = exact_search,
           shouldUseGemini = (length rs = 0)\<rparr>)"

definition handleFuzzySearch :: "engine \<Rightarrow> jsstring \<Rightarrow> SearchResponse" where
  "handleFuzzySearch st query =
     (let rs = performSearch st query
      in \<lparr>results = rs, aggregation = None, queryType = fuzzy_search,
           shouldUseGemini = (length rs = 0)\<rparr>)"

definition statistics_response :: "AggValue \<Rightarrow> jsstring \<Rightarrow> SearchResponse" where
  "statistics_response stats text =
     \<lparr>results = [],
      aggregation = Some \<lparr>agg_type = StatisticsType, agg_value = stats, description = text,
                          details = Some (StatisticsDetails stats)\<rparr>,
      queryType = analytical, shouldUseGemini = False\<rparr>"

definition handleAnalyticalQuery :: "engine \<Rightarrow> jsstring \<Rightarrow> error + SearchResponse" where
  "handleAnalyticalQuery st query =
     (let queryLower = toLowerCase query
      in if js_includes queryLower busho
            \<and> (js_includes queryLower nannin \<or> js_includes queryLower yuushuu)
         then (case analyzeDepartments st of
                 Inl e \<Rightarrow> Inl e
               | Inr departmentStats \<Rightarrow>
                   (case formatDepartmentAnalysis departmentStats queryLower of
                      Inl e \<Rightarrow> Inl e
                    | Inr text \<Rightarrow>
                        Inr (statistics_response (DepartmentStatsValue departmentStats) text)))
         else if js_includes queryLower sukiru \<or> js_includes queryLower gijutsu
         then (case analyzeSkills st of
                 Inl e \<Rightarrow> Inl e
               | Inr skillStats \<Rightarrow>
                   (case formatSkillAnalysis skillStats queryLower of
                      Inl e \<Rightarrow> Inl e
                    | Inr text \<Rightarrow> Inr (statistics_response (SkillStatsValue skillStats) text)))
         else if js_includes queryLower keiken \<or> js_includes queryLower nensuu
         then (let experienceStats = analyzeExperience st
               in Inr (statistics_response (ExperienceStatsValue experienceStats)
                         (formatExperienceAnalysis st experienceStats queryLower)))
         else if js_includes queryLower yuushuu
         then Inr \<lparr>results = findTopPerformers st, aggregation = None, queryType = analytical,
                   shouldUseGemini = False\<rparr>
         else Inr \<lparr>results = [], aggregation = None, queryType = analytical,
                   shouldUseGemini = True\<rparr>)"

text \<open>
  \<^verbatim>\<open>handleGeneralQuestion\<close>. The two lists are introduced by
  \<^verbatim>\<open>tousha ni wa ika no busho ga arimasu:\<close> and
  \<^verbatim>\<open>shain ga motte iru sukiru wa ika no toori desu:\<close>.
\<close>

definition handleGeneralQuestion :: "engine \<Rightarrow> jsstring \<Rightarrow> SearchResponse" where
  "handleGeneralQuestion st query =
     (let queryLower = toLowerCase query
      in if js_includes queryLower busho \<and> js_includes queryLower nanigaaru
         then (let departments = getUniqueDepartments st
               in \<lparr>results = [],
                    aggregation = Some \<lparr>agg_type = ListType, agg_value = StringsValue departments,
                      description = [0x5F53, 0x793E, 0x306B, 0x306F, 0x4EE5, 0x4E0B, 0x306E, 0x90E8, 0x7F72, 0x304C, 0x3042, 0x308A, 0x307E, 0x3059, 0xFF1A, 0x000A] @ join [0x000A] departments,
                      details = Some (DepartmentList departments)\<rparr>,
                    queryType = general_question, shouldUseGemini = False\<rparr>)
         else if js_includes queryLower sukiru \<or> js_includes queryLower gijutsu
         then (let skills' = getUniqueSkills st
               in \<lparr>results = [],
                    aggregation = Some \<lparr>agg_type = ListType, agg_value = StringsValue skills',
                      description = [0x793E, 0x54E1, 0x304C, 0x6301, 0x3063, 0x3066, 0x3044, 0x308B, 0x30B9, 0x30AD, 0x30EB, 0x306F, 0x4EE5, 0x4E0B, 0x306E, 0x901A, 0x308A, 0x3067, 0x3059, 0xFF1A, 0x000A] @ join [0x000A] skills',
                      details = Some (SkillList skills')\<rparr>,
                    queryType = general_question, shouldUseGemini = False\<rparr>)
         else if js_includes queryLower osusume \<or> js_includes queryLower suishou
                 \<or> js_includes queryLower tekinin
         then \<lparr>results = performSearch st query, aggregation = None,
                queryType = general_question, shouldUseGemini = True\<rparr>
         else if js_includes queryLower senmon \<or> js_includes queryLower ekisupaato
                 \<or> js_includes queryLower kuwashii
         then \<lparr>results = performSearch st query, aggregation = None,
                queryType = general_question, shouldUseGemini = True\<rparr>
         else if js_includes queryLower mentaa \<or> js_includes queryLower shidou
                 \<or> js_includes queryLower shinjin
         then \<lparr>results = performSearch st query, aggregation = None,
                queryType = general_question, shouldUseGemini = True\<rparr>
         else if js_includes queryLower wakate \<or> js_includes queryLower beteran
                 \<or> js_includes queryLower shinia
         then \<lparr>results = performSearch st query, aggregation = None,
                queryType = general_question, shouldUseGemini = True\<rparr>
         else \<lparr>results = [], aggregation = None, queryType = general_question,
                shouldUseGemini = True\<rparr>)"

text \<open>
  \<^verbatim>\<open>search\<close>: the promise is fulfilled with a response (\<open>Inr\<close>) or rejected with the
  error a strategy throws (\<open>Inl\<close>).
\<close>

definition search :: "engine \<Rightarrow> jsstring \<Rightarrow> error + SearchResponse" where
  "search st query =
     (let queryType' = analyzeQueryType query;
          aggregationResult = detectAggregationQuery st query
      in case aggregationResult of
           Some a \<Rightarrow> Inr \<lparr>results = [], aggregation = Some a, queryType = queryType',
                          shouldUseGemini = False\<rparr>
         | None \<Rightarrow>
             (case queryType' of
                exact_search \<Rightarrow> Inr (handleExactSearch st query)
              | fuzzy_search \<Rightarrow> Inr (handleFuzzySearch st query)
              | analytical \<Rightarrow> handleAnalyticalQuery st query
              | general_question \<Rightarrow> Inr (handleGeneralQuestion st query)))"

section \<open>Rendering the results\<close>

text \<open>
  \<^verbatim>\<open>formatResults\<close>. An absent aggregation is \<open>None\<close>. Each result is a block of six
  lines (number and name, department, skills, qualifications, experience, relevance), the
  last five indented by three spaces.
\<close>

definition no_results_message :: jsstring where
  "no_results_message = [0x691C, 0x7D22, 0x6761, 0x4EF6, 0x306B, 0x4E00, 0x81F4, 0x3059, 0x308B, 0x7D50, 0x679C, 0x304C, 0x898B, 0x3064, 0x304B, 0x308A, 0x307E, 0x305B, 0x3093, 0x3067, 0x3057, 0x305F, 0x3002]"

definition formatResults :: "AdvancedSearchResult list \<Rightarrow> AggregationResult option \<Rightarrow> jsstring" where
  "formatResults rs aggregation' =
     (case aggregation' of
        Some a \<Rightarrow> description a
      | None \<Rightarrow>
          if length rs = 0 then no_results_message
          else
            let formattedResults = map (\<lambda>(index, result).
                  let p = person result
                  in show_nat (index + 1) @ ascii ''. '' @ name p
                     @ [0x000A, 0x0020, 0x0020, 0x0020, 0x90E8, 0x7F72, 0x003A, 0x0020] @ department p
                     @ [0x000A, 0x0020, 0x0020, 0x0020, 0x30B9, 0x30AD, 0x30EB, 0x003A, 0x0020] @ join (ascii '', '') (skills p)
                     @ [0x000A, 0x0020, 0x0020, 0x0020, 0x8CC7, 0x683C, 0x003A, 0x0020] @ join (ascii '', '') (qualifications p)
                     @ [0x000A, 0x0020, 0x0020, 0x0020, 0x7D4C, 0x9A13, 0x003A, 0x0020] @ experience p
                     @ [0x000A, 0x0020, 0x0020, 0x0020, 0x95A2, 0x9023, 0x6027, 0x003A, 0x0020] @ explanation result) (enumerate 0 rs)
            in join [0x000A, 0x000A] formattedResults)"

section \<open>Notions used to state the properties\<close>

text \<open>
  The words that the similarity computation counts for a string: its non-empty pieces,
  lower-cased and trimmed, without the empty ones and without \<^verbatim>\<open>__proto__\<close>, which never
  becomes a key of a frequency table.
\<close>

definition normalized :: "jsstring list \<Rightarrow> jsstring list" where
  "normalized ws =
     filter (\<lambda>w. length w > 0 \<and> w \<noteq> ascii ''__proto__'')
       (map (\<lambda>word. trim (toLowerCase word)) ws)"

definition counted_words :: "jsstring \<Rightarrow> jsstring list" where
  "counted_words s = normalized (filter (\<lambda>word. length word > 0) (split_words s))"

text \<open>
  The tokens as the specification describes them: split on white space, comma,
  ideographic comma, full stop and ideographic full stop.
\<close>

definition spec_is_separator :: "code_unit \<Rightarrow> bool" where
  "spec_is_separator c \<longleftrightarrow>
     is_space c \<or> c = 0x2C \<or> c = 0x3001 \<or> c = 0x2E \<or> c = 0x3002"

definition spec_tokens :: "jsstring \<Rightarrow> jsstring list" where
  "spec_tokens s = filter (\<lambda>word. length word > 0) (split_on spec_is_separator s)"

text \<open>
  The four scoring steps as the specification lists them: an exact match is worth 1.0, a
  partial match (looked for only when there is no exact match) 0.8, the similarity step
  is the best similarity above 0.05 among the chunks, and the conversational step is the
  heuristic sum for a conversational query. \<open>spec_final_score\<close> is their maximum.
\<close>

definition spec_exact :: "jsstring \<Rightarrow> PersonInfo \<Rightarrow> real" where
  "spec_exact ql p =
     (if js_includes ql (toLowerCase (department p))
         \<or> list_ex (\<lambda>s. js_includes ql (toLowerCase s)) (skills p)
         \<or> list_ex (\<lambda>s. js_includes ql (toLowerCase s)) (qualifications p)
         \<or> js_includes ql (toLowerCase (name p))
      then 1 else 0)"

definition contains_either :: "jsstring \<Rightarrow> jsstring \<Rightarrow> bool" where
  "contains_either ql field \<longleftrightarrow>
     js_includes (toLowerCase field) ql \<or> js_includes ql (toLowerCase field)"

definition spec_partial :: "jsstring \<Rightarrow> PersonInfo \<Rightarrow> real" where
  "spec_partial ql p =
     (if spec_exact ql p = 0
         \<and> (contains_either ql (department p) \<or> list_ex (contains_either ql) (skills p)
            \<or> list_ex (contains_either ql) (qualifications p))
      then 0.8 else 0)"

definition chunk_similarities :: "jsstring \<Rightarrow> Chunk list \<Rightarrow> real list" where
  "chunk_similarities ql cs =
     concat (map (\<lambda>c. case calculateCosineSimilarity ql (toLowerCase (content c)) of
                         Num r \<Rightarrow> if r > 0.05 then [r] else []
                       | NaN \<Rightarrow> []) cs)"

definition best_similarity :: "jsstring \<Rightarrow> Chunk list \<Rightarrow> real" where
  "best_similarity ql cs = Max (set (0 # chunk_similarities ql cs))"

definition spec_conversational :: "jsstring \<Rightarrow> PersonInfo \<Rightarrow> real" where
  "spec_conversational ql p =
     (if isConversationalQuery ql then calculateConversationalScore ql p else 0)"

definition spec_final_score :: "jsstring \<Rightarrow> PersonInfo \<Rightarrow> Chunk list \<Rightarrow> real" where
  "spec_final_score ql p cs =
     Max {spec_exact ql p, spec_partial ql p, best_similarity ql cs, spec_conversational ql p}"

text \<open>
  The final score as the code computes it: the similarity step counts only when there is
  neither an exact nor a partial match.
\<close>

definition final_score :: "jsstring \<Rightarrow> PersonInfo \<Rightarrow> Chunk list \<Rightarrow> real" where
  "final_score ql p cs =
     max (if spec_exact ql p > 0 \<or> spec_partial ql p > 0
          then max (spec_exact ql p) (spec_partial ql p)
          else best_similarity ql cs)
         (spec_conversational ql p)"

text \<open>
  No token of the query occurs in the content of any chunk, with the tokens of the
  specification and the comparison in lower case.
\<close>

definition spec_no_token_occurs :: "engine \<Rightarrow> jsstring \<Rightarrow> bool" where
  "spec_no_token_occurs st q \<longleftrightarrow>
     list_all (\<lambda>c. list_all (\<lambda>w. \<not> js_includes (toLowerCase (content c)) w)
                      (spec_tokens (toLowerCase q)))
              (chunks st)"

section \<open>Example stores\<close>

definition alice :: PersonInfo where
  "alice = \<lparr>name = ascii ''Alice'', department = ascii ''Dev'', skills = [],
            qualifications = [], selfPR = [], experience = [], yearsOfExperience = 0\<rparr>"

definition bob :: PersonInfo where
  "bob = \<lparr>name = ascii ''Bob'', department = kaihatsubu,
          skills = [ascii ''python'', ascii ''react''], qualifications = [], selfPR = [],
          experience = ascii ''web'', yearsOfExperience = 6\<rparr>"

text \<open>A record with a skill that contains the query, and an experience that repeats it.\<close>

definition carol :: PersonInfo where
  "carol = \<lparr>name = ascii ''n'', department = ascii ''d'', skills = [ascii ''foobar''],
            qualifications = [], selfPR = [],
            experience = ascii ''foo foo foo foo'', yearsOfExperience = 0\<rparr>"

text \<open>Six records with the same skill.\<close>

definition pythonist :: "string \<Rightarrow> PersonInfo" where
  "pythonist n = \<lparr>name = ascii n, department = ascii ''lab'', skills = [ascii ''python''],
                  qualifications = [], selfPR = [], experience = [], yearsOfExperience = 1\<rparr>"

definition six_pythonists :: "PersonInfo list" where
  "six_pythonists = map pythonist [''ann'', ''ben'', ''cat'', ''dan'', ''eve'', ''fox'']"

text \<open>
  Two records in the development department and one in the design department, with the
  departments in English and in Japanese.
\<close>

definition member :: "string \<Rightarrow> jsstring \<Rightarrow> PersonInfo" where
  "member n d = \<lparr>name = ascii n, department = d, skills = [], qualifications = [],
                 selfPR = [], experience = [], yearsOfExperience = 0\<rparr>"

definition english_store :: engine where
  "english_store =
     initialize [member ''A'' (ascii ''Dev''), member ''B'' (ascii ''Dev''),
                 member ''C'' (ascii ''Design'')]"

definition japanese_store :: engine where
  "japanese_store =
     initialize [member ''A'' kaihatsubu, member ''B'' kaihatsubu, member ''C'' dezainbu]"

text \<open>The question \<^verbatim>\<open>kaihatsubu wa nannin imasu ka\<close>: how many people are in development.\<close>

definition how_many_in_development :: jsstring where
  "how_many_in_development = kaihatsubu @ [0x306F] @ nannin @ [0x3044, 0x307E, 0x3059, 0x304B]"

text \<open>
  A record of the development and infrastructure department, with a qualification, three
  years of experience and the skill \<^verbatim>\<open>python\<close>, and a query that names the skill and
  has five conversational cues (veteran, junior, qualification, development,
  infrastructure).
\<close>

definition dave :: PersonInfo where
  "dave = \<lparr>name = ascii ''Dave'', department = kaihatsu @ infurabu,
           skills = [ascii ''python''], qualifications = [ascii ''AWS SAA''], selfPR = [],
           experience = [], yearsOfExperience = 3\<rparr>"

definition cue_query :: jsstring where
  "cue_query = ascii ''python '' @ beteran @ ascii '' '' @ wakate @ ascii '' '' @ shikaku
               @ ascii '' '' @ kaihatsu @ ascii '' '' @ infura"

text \<open>A record with a skill in two words.\<close>

definition erin :: PersonInfo where
  "erin = \<lparr>name = ascii ''Erin'', department = ascii ''Dev'',
           skills = [ascii ''react native''], qualifications = [], selfPR = [],
           experience = [], yearsOfExperience = 0\<rparr>"

section \<open>Rendering: the aggregation passes through\<close>

text \<open>
  Claim C6. For every list of results and every aggregation that is present,
  \<^verbatim>\<open>formatResults\<close> returns the description of the aggregation, whatever the results
  are; with no result and no aggregation it returns one fixed message.
\<close>

theorem formatResults_passthrough:
  "formatResults rs (Some a) = description a \<and> formatResults [] None = no_results_message"
  by (simp add: formatResults_def)

theorem formatResults_passthrough_witness:
  "formatResults [] (Some (department_count (initialize [alice]) kaihatsu kaihatsubu))
     = kaihatsubu @ [0x306B, 0x6240, 0x5C5E, 0x3057, 0x3066, 0x3044, 0x308B, 0x4EBA, 0x306F] @ ascii ''0'' @ [0x4EBA, 0x3067, 0x3059, 0x3002]
   \<and> formatResults [] None = no_results_message"
  using formatResults_passthrough
    [of "[]" "department_count (initialize [alice]) kaihatsu kaihatsubu"]
  by (simp add: department_count_def initialize_def alice_def ascii_def show_nat.simps digit_def)

section \<open>Classification\<close>

lemma starts_with_map: "starts_with s t \<Longrightarrow> starts_with (map f s) (map f t)"
  by (induction s t rule: starts_with.induct) auto

lemma js_includes_map: "js_includes s t \<Longrightarrow> js_includes (map f s) (map f t)"
proof (induction s)
  case Nil
  then show ?case by simp
next
  case (Cons x s)
  then show ?case using starts_with_map [of "x # s" t f] by auto
qed

lemma exactKeywords_lower: "k \<in> set exactKeywords \<Longrightarrow> toLowerCase k = k"
  by (auto simp: exactKeywords_def toLowerCase_def lower_unit_def ascii_def)

lemma js_includes_lower:
  "js_includes q k \<Longrightarrow> toLowerCase k = k \<Longrightarrow> js_includes (toLowerCase q) k"
  using js_includes_map [of q k lower_unit] by (simp add: toLowerCase_def)

text \<open>
  Claim C3. A query that contains an exact-search keyword and a conversational keyword,
  in whatever order, is classified \<open>exact_search\<close>: the exact-search tier is tested
  first, and the position of the keywords in the string plays no role.
\<close>

theorem classifier_priority:
  assumes "k \<in> set exactKeywords" and "c \<in> set conversationalKeywords"
    and "js_includes q k" and "js_includes q c"
  shows "analyzeQueryType q = exact_search"
proof -
  have "js_includes (toLowerCase q) k"
    using assms(1,3) by (simp add: js_includes_lower exactKeywords_lower)
  then have "list_ex (\<lambda>keyword. js_includes (toLowerCase q) keyword) exactKeywords"
    using assms(1) by (auto simp: list_ex_iff)
  then show ?thesis by (simp add: analyzeQueryType_def)
qed

theorem classifier_priority_witness:
  "analyzeQueryType (ascii ''python '' @ osusume) = exact_search
   \<and> analyzeQueryType (osusume @ ascii '' python'') = exact_search"
proof -
  have k: "ascii ''python'' \<in> set exactKeywords" by (simp add: exactKeywords_def)
  have c: "osusume \<in> set conversationalKeywords" by (simp add: conversationalKeywords_def)
  have 1: "js_includes (ascii ''python '' @ osusume) (ascii ''python'')"
    and 2: "js_includes (ascii ''python '' @ osusume) osusume"
    and 3: "js_includes (osusume @ ascii '' python'') (ascii ''python'')"
    and 4: "js_includes (osusume @ ascii '' python'') osusume"
    by (simp_all add: ascii_def)
  show ?thesis
    using classifier_priority [OF k c 1 2] classifier_priority [OF k c 3 4] by simp
qed

section \<open>Chunks and their records\<close>

lemma unat_digit: "d < 10 \<Longrightarrow> unat (digit d) = 48 + d"
  by (simp only: digit_def unat_of_nat) simp

lemma digit_inj:
  assumes "a < 10" and "b < 10" and "digit a = digit b"
  shows "a = b"
proof -
  have "unat (digit a) = unat (digit b)" by (simp only: assms(3))
  then have "48 + a = 48 + b" by (simp only: unat_digit [OF assms(1)] unat_digit [OF assms(2)])
  then show ?thesis by simp
qed

lemma show_nat_nonempty: "show_nat n \<noteq> []"
  by (subst show_nat.simps) simp

lemma last_show_nat: "last (show_nat n) = digit (n mod 10)"
  by (subst show_nat.simps) simp

lemma butlast_show_nat: "butlast (show_nat n) = (if n < 10 then [] else show_nat (n div 10))"
  by (subst show_nat.simps) simp

lemma show_nat_inj: "show_nat m = show_nat n \<Longrightarrow> m = n"
proof (induction m arbitrary: n rule: show_nat.induct)
  case (1 m)
  from "1.prems" have l: "digit (m mod 10) = digit (n mod 10)"
    by (metis last_show_nat)
  then have md: "m mod 10 = n mod 10" by (simp add: digit_inj)
  from "1.prems" have b: "butlast (show_nat m) = butlast (show_nat n)" by simp
  show ?case
  proof (cases "m < 10")
    case True
    with b have "n < 10"
      using show_nat_nonempty [of "n div 10"]
      by (cases "n < 10") (simp_all add: butlast_show_nat)
    with True md show ?thesis by simp
  next
    case False
    with b have n: "\<not> n < 10" and e: "show_nat (m div 10) = show_nat (n div 10)"
      using show_nat_nonempty [of "m div 10"]
      by (auto simp: butlast_show_nat split: if_splits)
    from "1.IH" [OF False e] have "m div 10 = n div 10" .
    with md show ?thesis by (metis div_mult_mod_eq)
  qed
qed

lemma person_id_inj: "person_id i = person_id j \<longleftrightarrow> i = j"
  by (auto simp: person_id_def dest: show_nat_inj)

lemma personId_person_chunks: "c \<in> set (person_chunks j p) \<Longrightarrow> personId c = person_id j"
  by (auto simp: person_chunks_def split: if_splits)

lemma filter_person_chunks:
  "filter (\<lambda>c. personId c = person_id i) (person_chunks j p) = (if i = j then person_chunks j p else [])"
  using personId_person_chunks [of _ j p] by (auto simp: person_id_inj filter_empty_conv)

lemma filter_chunks_enumerate:
  "filter (\<lambda>c. personId c = person_id i)
     (concat (map (\<lambda>(j, p). person_chunks j p) (enumerate k ps)))
   = (if k \<le> i \<and> i < k + length ps then person_chunks i (ps ! (i - k)) else [])"
proof (induction ps arbitrary: k)
  case Nil
  then show ?case by auto
next
  case (Cons p ps)
  have split: "filter (\<lambda>c. personId c = person_id i)
       (concat (map (\<lambda>(j, p). person_chunks j p) (enumerate k (p # ps))))
     = (if i = k then person_chunks k p else [])
       @ (if Suc k \<le> i \<and> i < Suc k + length ps then person_chunks i (ps ! (i - Suc k)) else [])"
    by (simp only: enumerate_simps list.map concat.simps filter_append prod.case
        filter_person_chunks Cons.IH)
  show ?case
  proof (cases "i = k")
    case True
    then show ?thesis unfolding split by simp
  next
    case False
    then show ?thesis unfolding split by (cases "k < i") (simp_all add: nth_Cons')
  qed
qed

lemma own_chunks_initialize:
  "i < length ps \<Longrightarrow>
   filter (\<lambda>c. personId c = person_id i) (chunks (initialize ps)) = person_chunks i (ps ! i)"
  by (simp add: initialize_def createChunks_def filter_chunks_enumerate)

lemma chunk_owner:
  "c \<in> set (createChunks ps) \<Longrightarrow> \<exists>i<length ps. c \<in> set (person_chunks i (ps ! i))"
  by (auto simp: createChunks_def in_set_enumerate_eq)

text \<open>
  Claim C10. After \<^verbatim>\<open>initialize\<close>, the chunks of the record at index \<open>i\<close> are one
  basic chunk, then a skills, an experience and a qualifications chunk, each present
  exactly when the field of the record is not empty; every one of them carries the name
  and the metadata of the record; so a record has between one and four chunks. Every
  chunk of the store is the chunk of some record.
\<close>

theorem chunks_invariant:
  assumes "i < length ps"
  shows "(let p = ps ! i;
              own = filter (\<lambda>c. personId c = person_id i) (chunks (initialize ps))
          in map chunkType own =
               [Basic] @ (if skills p \<noteq> [] then [Skills] else [])
               @ (if experience p \<noteq> [] then [Experience] else [])
               @ (if qualifications p \<noteq> [] then [Qualifications] else [])
             \<and> (\<forall>c \<in> set own.
                   personName c = name p
                   \<and> md_department (metadata c) = department p
                   \<and> md_skills (metadata c) = skills p
                   \<and> md_qualifications (metadata c) = qualifications p
                   \<and> md_yearsOfExperience (metadata c) = yearsOfExperience p)
             \<and> 1 \<le> length own \<and> length own \<le> 4)
         \<and> (\<forall>c \<in> set (chunks (initialize ps)). \<exists>j<length ps. personId c = person_id j)"
proof
  show "let p = ps ! i;
            own = filter (\<lambda>c. personId c = person_id i) (chunks (initialize ps))
        in map chunkType own =
             [Basic] @ (if skills p \<noteq> [] then [Skills] else [])
             @ (if experience p \<noteq> [] then [Experience] else [])
             @ (if qualifications p \<noteq> [] then [Qualifications] else [])
           \<and> (\<forall>c \<in> set own.
                 personName c = name p
                 \<and> md_department (metadata c) = department p
                 \<and> md_skills (metadata c) = skills p
                 \<and> md_qualifications (metadata c) = qualifications p
                 \<and> md_yearsOfExperience (metadata c) = yearsOfExperience p)
           \<and> 1 \<le> length own \<and> length own \<le> 4"
    using assms
    by (simp add: own_chunks_initialize Let_def) (simp add: person_chunks_def person_metadata_def)
  show "\<forall>c \<in> set (chunks (initialize ps)). \<exists>j<length ps. personId c = person_id j"
    using chunk_owner [of _ ps] personId_person_chunks by (fastforce simp: initialize_def)
qed

theorem chunks_invariant_witness:
  "map chunkType (filter (\<lambda>c. personId c = person_id 0) (chunks (initialize [bob])))
     = [Basic, Skills, Experience]
   \<and> list_all (\<lambda>c. personName c = ascii ''Bob'' \<and> md_department (metadata c) = kaihatsubu
         \<and> md_skills (metadata c) = [ascii ''python'', ascii ''react'']
         \<and> md_qualifications (metadata c) = [] \<and> md_yearsOfExperience (metadata c) = 6)
       (filter (\<lambda>c. personId c = person_id 0) (chunks (initialize [bob])))"
proof -
  have i: "0 < length [bob]" by simp
  from chunks_invariant [OF i, THEN conjunct1] show ?thesis
    by (simp add: Let_def bob_def ascii_def list_all_iff)
qed


section \<open>Cosine similarity\<close>

subsection \<open>The frequency tables\<close>

lemma freq_read_update:
  "freq_read (AList.update k v f) w = (if w = k then v else freq_read f w)"
  by (simp add: freq_read_def update_conv')

lemma proto_member: "ascii ''__proto__'' \<in> set object_prototype_members"
  by (simp add: object_prototype_members_def)

lemma normalized_Cons:
  "normalized (x # ws) =
     (if length (trim (toLowerCase x)) > 0 \<and> trim (toLowerCase x) \<noteq> ascii ''__proto__''
      then trim (toLowerCase x) # normalized ws else normalized ws)"
  by (simp add: normalized_def)

lemma fold_freq_read:
  assumes "\<And>w. freq_read f w = (if w \<in> set object_prototype_members then NaN else Num (real (c w)))"
  shows "freq_read (fold count_word ws f) w =
         (if w \<in> set object_prototype_members then NaN
          else Num (real (c w + count_list (normalized ws) w)))"
  using assms
proof (induction ws arbitrary: f c)
  case Nil
  then show ?case by (simp add: normalized_def)
next
  case (Cons x ws)
  let ?n = "trim (toLowerCase x)"
  show ?case
  proof (cases "length ?n > 0 \<and> ?n \<noteq> ascii ''__proto__''")
    case True
    then have cw: "count_word x f = AList.update ?n (n_add (freq_read f ?n) (Num 1)) f"
      by (simp add: count_word_def freq_increment_def Let_def)
    have step: "freq_read (count_word x f) w =
        (if w \<in> set object_prototype_members then NaN
         else Num (real ((c(?n := c ?n + 1)) w)))" for w
      unfolding cw freq_read_update using Cons.prems [of w] Cons.prems [of ?n] by simp
    have "normalized (x # ws) = ?n # normalized ws"
      using True by (simp add: normalized_Cons)
    then show ?thesis
      using Cons.IH [of "count_word x f" "c(?n := c ?n + 1)", OF step] by simp
  next
    case False
    then have same: "count_word x f = f"
      by (auto simp: count_word_def freq_increment_def Let_def)
    have "normalized (x # ws) = normalized ws"
      using False by (simp add: normalized_Cons)
    then show ?thesis
      using Cons.IH [of f c, OF Cons.prems] by (simp add: same)
  qed
qed

lemma count_word_keys:
  "set (map fst (count_word x f)) = set (map fst f) \<union> set (normalized [x])"
  by (auto simp: normalized_def count_word_def freq_increment_def Let_def dom_update)

lemma fold_freq_keys:
  "set (map fst (fold count_word ws f)) = set (map fst f) \<union> set (normalized ws)"
proof (induction ws arbitrary: f)
  case Nil
  then show ?case by (simp add: normalized_def)
next
  case (Cons x ws)
  have "set (normalized (x # ws)) = set (normalized [x]) \<union> set (normalized ws)"
    by (auto simp: normalized_def)
  then show ?case
    by (simp only: fold_simps Cons.IH count_word_keys) auto
qed

lemma count_word_distinct: "distinct (map fst f) \<Longrightarrow> distinct (map fst (count_word x f))"
  by (simp add: count_word_def freq_increment_def Let_def distinct_update)

lemma fold_freq_distinct:
  "distinct (map fst f) \<Longrightarrow> distinct (map fst (fold count_word ws f))"
  by (induction ws arbitrary: f) (simp_all add: count_word_distinct)

lemma freq_read_word_frequencies:
  "freq_read (word_frequencies ws) w =
     (if w \<in> set object_prototype_members then NaN
      else Num (real (count_list (normalized ws) w)))"
  using fold_freq_read [where f = "[]" and c = "\<lambda>w. 0" and w = w and ws = ws]
  by (simp add: word_frequencies_def freq_read_def)

lemma keys_word_frequencies:
  "set (map fst (word_frequencies ws)) = set (normalized ws)"
  "distinct (map fst (word_frequencies ws))"
  using fold_freq_keys [of ws "[]"] fold_freq_distinct [of "[]" ws]
  by (simp_all add: word_frequencies_def)

subsection \<open>The similarity of two strings\<close>

lemma set_uniq [simp]: "set (uniq xs) = set xs"
  by (induction xs rule: uniq.induct) auto

lemma distinct_uniq [simp]: "distinct (uniq xs)"
  by (induction xs rule: uniq.induct) auto

lemma fold_n_add_Num:
  "(\<And>w. w \<in> set ws \<Longrightarrow> g w = Num (h w)) \<Longrightarrow>
   fold (\<lambda>w acc. n_add acc (g w)) ws (Num a) = Num (a + sum_list (map h ws))"
  by (induction ws arbitrary: a) (simp_all add: add.assoc)

lemma fold_n_add_from_NaN: "fold (\<lambda>w acc. n_add acc (g w)) ws NaN = NaN"
  by (induction ws) simp_all

lemma n_add_NaN_right [simp]: "n_add x NaN = NaN"
  by (cases x) simp_all

lemma n_mul_NaN_right [simp]: "n_mul x NaN = NaN"
  by (cases x) simp_all

lemma fold_n_add_NaN:
  "w \<in> set ws \<Longrightarrow> g w = NaN \<Longrightarrow> fold (\<lambda>w acc. n_add acc (g w)) ws acc = NaN"
proof (induction ws arbitrary: acc)
  case Nil
  then show ?case by simp
next
  case (Cons x ws)
  show ?case
  proof (cases "x = w")
    case True
    then show ?thesis using Cons.prems by (simp add: fold_n_add_from_NaN)
  next
    case False
    then show ?thesis using Cons by simp
  qed
qed

lemma sum_over_keys:
  assumes "distinct ks"
  shows "sum_list (map h ks) = sum h (set ks)"
  using assms by (simp add: sum_list_distinct_conv_sum_set)

text \<open>The similarity of two strings with tokens, none of which is an inherited name.\<close>

lemma cosine_clean:
  assumes qne: "filter (\<lambda>word. length word > 0) (split_words a) \<noteq> []"
    and tne: "filter (\<lambda>word. length word > 0) (split_words b) \<noteq> []"
    and qclean: "set (counted_words a) \<inter> set object_prototype_members = {}"
    and tclean: "set (counted_words b) \<inter> set object_prototype_members = {}"
  shows "calculateCosineSimilarity a b =
     (let K = set (counted_words a) \<union> set (counted_words b);
          X = (\<Sum>w\<in>K. real (count_list (counted_words a) w) * real (count_list (counted_words b) w));
          Q = (\<Sum>w\<in>K. real (count_list (counted_words a) w) * real (count_list (counted_words a) w));
          T = (\<Sum>w\<in>K. real (count_list (counted_words b) w) * real (count_list (counted_words b) w))
      in if Q = 0 \<or> T = 0 then Num 0 else Num (X / (sqrt Q * sqrt T)))"
proof -
  define qw where "qw = filter (\<lambda>word. length word > 0) (split_words a)"
  define tw where "tw = filter (\<lambda>word. length word > 0) (split_words b)"
  define ks where "ks = uniq (map fst (word_frequencies qw) @ map fst (word_frequencies tw))"
  have ca: "counted_words a = normalized qw" and cb: "counted_words b = normalized tw"
    by (simp_all add: counted_words_def qw_def tw_def)
  have ks_set: "set ks = set (normalized qw) \<union> set (normalized tw)"
    by (simp add: ks_def keys_word_frequencies del: set_map)
  have ks_dist: "distinct ks" by (simp add: ks_def)
  have rq: "freq_read (word_frequencies qw) w = Num (real (count_list (normalized qw) w))"
    if "w \<in> set ks" for w
    using that qclean tclean ks_set unfolding ca cb
    by (auto simp: freq_read_word_frequencies)
  have rt: "freq_read (word_frequencies tw) w = Num (real (count_list (normalized tw) w))"
    if "w \<in> set ks" for w
    using that qclean tclean ks_set unfolding ca cb
    by (auto simp: freq_read_word_frequencies)
  have dot: "fold (\<lambda>word acc. n_add acc (n_mul (freq_read (word_frequencies qw) word)
                (freq_read (word_frequencies tw) word))) ks (Num 0)
      = Num (\<Sum>w\<in>set ks. real (count_list (normalized qw) w) * real (count_list (normalized tw) w))"
    using fold_n_add_Num [where ws = ks and a = 0
        and g = "\<lambda>word. n_mul (freq_read (word_frequencies qw) word) (freq_read (word_frequencies tw) word)"
        and h = "\<lambda>w. real (count_list (normalized qw) w) * real (count_list (normalized tw) w)"]
    by (simp add: rq rt sum_over_keys [OF ks_dist])
  have qm: "fold (\<lambda>word acc. n_add acc (n_mul (freq_read (word_frequencies qw) word)
                (freq_read (word_frequencies qw) word))) ks (Num 0)
      = Num (\<Sum>w\<in>set ks. real (count_list (normalized qw) w) * real (count_list (normalized qw) w))"
    using fold_n_add_Num [where ws = ks and a = 0
        and g = "\<lambda>word. n_mul (freq_read (word_frequencies qw) word) (freq_read (word_frequencies qw) word)"
        and h = "\<lambda>w. real (count_list (normalized qw) w) * real (count_list (normalized qw) w)"]
    by (simp add: rq sum_over_keys [OF ks_dist])
  have tm: "fold (\<lambda>word acc. n_add acc (n_mul (freq_read (word_frequencies tw) word)
                (freq_read (word_frequencies tw) word))) ks (Num 0)
      = Num (\<Sum>w\<in>set ks. real (count_list (normalized tw) w) * real (count_list (normalized tw) w))"
    using fold_n_add_Num [where ws = ks and a = 0
        and g = "\<lambda>word. n_mul (freq_read (word_frequencies tw) word) (freq_read (word_frequencies tw) word)"
        and h = "\<lambda>w. real (count_list (normalized tw) w) * real (count_list (normalized tw) w)"]
    by (simp add: rt sum_over_keys [OF ks_dist])
  have "calculateCosineSimilarity a b =
      (let X = (\<Sum>w\<in>set ks. real (count_list (normalized qw) w) * real (count_list (normalized tw) w));
           Q = (\<Sum>w\<in>set ks. real (count_list (normalized qw) w) * real (count_list (normalized qw) w));
           T = (\<Sum>w\<in>set ks. real (count_list (normalized tw) w) * real (count_list (normalized tw) w))
       in if Q = 0 \<or> T = 0 then Num 0 else Num (X / (sqrt Q * sqrt T)))"
    using qne tne
    unfolding calculateCosineSimilarity_def qw_def [symmetric] tw_def [symmetric]
    by (simp add: Let_def ks_def [symmetric] dot qm tm)
  then show ?thesis
    by (simp add: ca cb ks_set Let_def)
qed


lemma cosine_no_words:
  "filter (\<lambda>word. length word > 0) (split_words a) = []
   \<or> filter (\<lambda>word. length word > 0) (split_words b) = []
   \<Longrightarrow> calculateCosineSimilarity a b = Num 0"
  by (auto simp: calculateCosineSimilarity_def Let_def)









lemma cosine_poisoned:
  assumes qne: "filter (\<lambda>word. length word > 0) (split_words a) \<noteq> []"
    and tne: "filter (\<lambda>word. length word > 0) (split_words b) \<noteq> []"
    and w: "w \<in> set (counted_words a) \<union> set (counted_words b)"
           "w \<in> set object_prototype_members"
  shows "calculateCosineSimilarity a b = NaN"
proof -
  define qw where "qw = filter (\<lambda>word. length word > 0) (split_words a)"
  define tw where "tw = filter (\<lambda>word. length word > 0) (split_words b)"
  define ks where "ks = uniq (map fst (word_frequencies qw) @ map fst (word_frequencies tw))"
  have "set ks = set (normalized qw) \<union> set (normalized tw)"
    by (simp add: ks_def keys_word_frequencies del: set_map)
  with w(1) have wk: "w \<in> set ks"
    by (simp add: counted_words_def qw_def tw_def)
  have rq: "freq_read (word_frequencies qw) w = NaN"
    and rt: "freq_read (word_frequencies tw) w = NaN"
    using w(2) by (simp_all add: freq_read_word_frequencies)
  have dot: "fold (\<lambda>word acc. n_add acc (n_mul (freq_read (word_frequencies qw) word)
                (freq_read (word_frequencies tw) word))) ks (Num 0) = NaN"
    by (rule fold_n_add_NaN [OF wk]) (simp add: rq)
  have qm: "fold (\<lambda>word acc. n_add acc (n_mul (freq_read (word_frequencies qw) word)
                (freq_read (word_frequencies qw) word))) ks (Num 0) = NaN"
    by (rule fold_n_add_NaN [OF wk]) (simp add: rq)
  have tm: "fold (\<lambda>word acc. n_add acc (n_mul (freq_read (word_frequencies tw) word)
                (freq_read (word_frequencies tw) word))) ks (Num 0) = NaN"
    by (rule fold_n_add_NaN [OF wk]) (simp add: rt)
  show ?thesis
    using qne tne
    unfolding calculateCosineSimilarity_def qw_def [symmetric] tw_def [symmetric]
    by (simp add: Let_def ks_def [symmetric] dot qm tm)
qed

text \<open>Strings with no counted word in common are never similar.\<close>

lemma cosine_disjoint:
  assumes "set (counted_words a) \<inter> set (counted_words b) = {}"
  shows "calculateCosineSimilarity a b = NaN \<or> calculateCosineSimilarity a b = Num 0"
proof (cases "filter (\<lambda>word. length word > 0) (split_words a) = []
              \<or> filter (\<lambda>word. length word > 0) (split_words b) = []")
  case True
  then show ?thesis by (simp add: cosine_no_words)
next
  case ne: False
  show ?thesis
  proof (cases "(set (counted_words a) \<union> set (counted_words b)) \<inter> set object_prototype_members = {}")
    case True
    have zero: "real (count_list (counted_words a) w) * real (count_list (counted_words b) w) = 0"
      for w
      using assms by (cases "w \<in> set (counted_words a)") (auto simp: count_list_0_iff)
    from True have "set (counted_words a) \<inter> set object_prototype_members = {}"
      and "set (counted_words b) \<inter> set object_prototype_members = {}" by blast+
    from cosine_clean [OF _ _ this] ne show ?thesis
      by (simp add: Let_def zero)
  next
    case False
    then obtain w where "w \<in> set (counted_words a) \<union> set (counted_words b)"
      and "w \<in> set object_prototype_members" by blast
    from cosine_poisoned [OF _ _ this] ne show ?thesis by simp
  qed
qed




text \<open>
  The word \<^verbatim>\<open>constructor\<close> is left out above: reading it in an empty table gives the
  inherited member, and the similarity is not a number.
\<close>

lemma cosine_constructor:
  "calculateCosineSimilarity (ascii ''constructor'') (ascii ''constructor'') = NaN"
  by (simp add: calculateCosineSimilarity_def
      split_words_def is_separator_def is_space_def word_frequencies_def count_word_def
      freq_increment_def freq_read_def object_prototype_members_def trim_def toLowerCase_def
      lower_unit_def ascii_def)

section \<open>The search\<close>

subsection \<open>The candidates of a search\<close>

lemma in_map_filter: "r \<in> set (List.map_filter f xs) \<longleftrightarrow> (\<exists>x\<in>set xs. f x = Some r)"
  by (auto simp: List.map_filter_def image_iff)

lemma length_map_filter: "length (List.map_filter f xs) \<le> length xs"
  by (simp add: List.map_filter_def)

lemma in_performSearch:
  assumes "r \<in> set (performSearch st q)"
  shows "\<exists>i<length (persons st). score_person st (toLowerCase q) i (persons st ! i) = Some r"
proof -
  from assms have "r \<in> set (List.map_filter
      (\<lambda>(personIndex, p). score_person st (toLowerCase q) personIndex p) (enumerate 0 (persons st)))"
    by (auto simp: performSearch_def Let_def dest: in_set_takeD)
  then show ?thesis
    by (auto simp: in_map_filter in_set_enumerate_eq)
qed

lemma performSearch_small:
  assumes "length (persons st) \<le> 5" and "i < length (persons st)"
    and "score_person st (toLowerCase q) i (persons st ! i) = Some r"
  shows "r \<in> set (performSearch st q)"
proof -
  let ?c = "List.map_filter
      (\<lambda>(personIndex, p). score_person st (toLowerCase q) personIndex p) (enumerate 0 (persons st))"
  have "length ?c \<le> 5"
    using length_map_filter [of _ "enumerate 0 (persons st)"] assms(1)
    by (metis length_enumerate order_trans)
  then have "performSearch st q = sort_key (\<lambda>r. - relevance r) ?c"
    by (simp add: performSearch_def Let_def)
  moreover have "r \<in> set ?c"
    using assms(2,3) by (auto simp: in_map_filter in_set_enumerate_eq intro!: bexI [of _ "(i, persons st ! i)"])
  ultimately show ?thesis by simp
qed

lemma length_performSearch: "length (performSearch st q) \<le> 5"
  by (simp add: performSearch_def Let_def)

lemma length_performSearch_store: "length (performSearch st q) \<le> length (persons st)"
proof -
  let ?c = "List.map_filter
      (\<lambda>(personIndex, p). score_person st (toLowerCase q) personIndex p) (enumerate 0 (persons st))"
  have "length ?c \<le> length (persons st)"
    using length_map_filter [of _ "enumerate 0 (persons st)"] by simp
  then show ?thesis by (simp add: performSearch_def Let_def)
qed

lemma sorted_desc_take_sort:
  "sorted_wrt (\<lambda>a b. relevance a \<ge> relevance b) (take n (sort_key (\<lambda>r. - relevance r) (xs :: AdvancedSearchResult list)))"
proof -
  have "sorted (map (\<lambda>r. - relevance r) (sort_key (\<lambda>r. - relevance r) xs))"
    by (rule sorted_sort_key)
  then have "sorted_wrt (\<lambda>a b. relevance a \<ge> relevance b) (sort_key (\<lambda>r. - relevance r) xs)"
    by (simp add: sorted_map)
  then show ?thesis by (rule sorted_wrt_take)
qed

lemma sorted_performSearch:
  "sorted_wrt (\<lambda>a b. relevance a \<ge> relevance b) (performSearch st q)"
  by (simp add: performSearch_def Let_def sorted_desc_take_sort)

lemma findTopPerformers_sorted:
  "length (findTopPerformers st) \<le> 5
   \<and> sorted_wrt (\<lambda>a b. relevance a \<ge> relevance b) (findTopPerformers st)"
  by (simp add: findTopPerformers_def Let_def sorted_desc_take_sort)

text \<open>
  Claim C4. Whenever \<^verbatim>\<open>search\<close> returns, its results are at most five and in
  non-increasing order of relevance; and it returns for every query that is not
  classified as analytical (an analytical query can fail while the statistics are
  rendered).
\<close>

theorem search_results_capped_sorted:
  "(search st q = Inr r \<longrightarrow>
      length (results r) \<le> 5
      \<and> sorted_wrt (\<lambda>a b. relevance a \<ge> relevance b) (results r))
   \<and> (analyzeQueryType q \<noteq> analytical \<longrightarrow> (\<exists>r. search st q = Inr r))"
proof -
  have "length (results r) \<le> 5
        \<and> sorted_wrt (\<lambda>a b. relevance a \<ge> relevance b) (results r)"
    if "search st q = Inr r"
  proof (cases "detectAggregationQuery st q")
    case (Some a)
    with that show ?thesis by (auto simp: search_def)
  next
    case None
    show ?thesis
    proof (cases "analyzeQueryType q")
      case exact_search
      with None that show ?thesis
        by (auto simp: search_def handleExactSearch_def Let_def length_performSearch
            sorted_performSearch)
    next
      case fuzzy_search
      with None that show ?thesis
        by (auto simp: search_def handleFuzzySearch_def Let_def length_performSearch
            sorted_performSearch)
    next
      case analytical
      with None that have "handleAnalyticalQuery st q = Inr r"
        by (simp add: search_def)
      then show ?thesis
        using findTopPerformers_sorted [of st]
        by (auto simp: handleAnalyticalQuery_def statistics_response_def Let_def
            split: if_splits sum.splits)
    next
      case general_question
      with None that have "r = handleGeneralQuestion st q"
        by (simp add: search_def)
      then show ?thesis
        by (auto simp: handleGeneralQuestion_def Let_def length_performSearch
            sorted_performSearch)
    qed
  qed
  moreover have "\<exists>r. search st q = Inr r" if "analyzeQueryType q \<noteq> analytical"
    using that
    by (cases "detectAggregationQuery st q"; cases "analyzeQueryType q")
       (simp_all add: search_def)
  ultimately show ?thesis by blast
qed

theorem search_results_capped_sorted_witness:
  "analyzeQueryType (ascii ''python'') \<noteq> analytical
   \<and> (\<exists>r. search (initialize six_pythonists) (ascii ''python'') = Inr r
          \<and> length (results r) \<le> 5
          \<and> sorted_wrt (\<lambda>a b. relevance a \<ge> relevance b) (results r))"
proof -
  have "analyzeQueryType (ascii ''python'') = exact_search"
    by (simp add: analyzeQueryType_def exactKeywords_def toLowerCase_def lower_unit_def ascii_def)
  then have nt: "analyzeQueryType (ascii ''python'') \<noteq> analytical" by simp
  with search_results_capped_sorted [of "initialize six_pythonists" "ascii ''python''"]
  obtain r where r: "search (initialize six_pythonists) (ascii ''python'') = Inr r" by blast
  from search_results_capped_sorted [of "initialize six_pythonists" "ascii ''python''" r] r nt
  show ?thesis by blast
qed


subsection \<open>The score of one person\<close>

lemma similarity_scan_fold:
  "fst (fold (\<lambda>chunk (maxRelevance, matched).
             case calculateCosineSimilarity ql (toLowerCase (content chunk)) of
               Num relevance' \<Rightarrow>
                 if relevance' > 0.05 then (max maxRelevance relevance', matched @ [chunk])
                 else (maxRelevance, matched)
             | NaN \<Rightarrow> (maxRelevance, matched)) cs (m, ms))
   = fold max (chunk_similarities ql cs) m"
proof (induction cs arbitrary: m ms)
  case Nil
  then show ?case by (simp add: chunk_similarities_def)
next
  case (Cons c cs)
  show ?case
  proof (cases "calculateCosineSimilarity ql (toLowerCase (content c))")
    case NaN
    then show ?thesis using Cons.IH [of m ms] by (simp add: chunk_similarities_def)
  next
    case (Num r)
    then show ?thesis
      using Cons.IH [of m ms] Cons.IH [of "max m r" "ms @ [c]"]
      by (simp add: chunk_similarities_def max.commute)
  qed
qed

lemma similarity_scan_best: "fst (similarity_scan ql cs) = best_similarity ql cs"
  unfolding similarity_scan_def best_similarity_def similarity_scan_fold
  by (simp only: Max.set_eq_fold)

lemma best_similarity_nonneg: "0 \<le> best_similarity ql cs"
  by (simp add: best_similarity_def)

lemma fold_partial:
  "fold (\<lambda>s m. if P s then max m (0.8::real) else m) xs m0
   = (if list_ex P xs then max m0 0.8 else m0)"
  by (induction xs arbitrary: m0) auto

lemma checkPartialMatch_eq:
  "checkPartialMatch ql p =
     (if contains_either ql (department p) \<or> list_ex (contains_either ql) (skills p)
         \<or> list_ex (contains_either ql) (qualifications p)
      then 0.8 else 0)"
  unfolding checkPartialMatch_def Let_def fold_partial contains_either_def [abs_def]
  by auto

lemma checkExactMatch_eq:
  "checkExactMatch ql p = max (spec_exact ql p) (spec_partial ql p)"
  by (simp add: checkExactMatch_def checkPartialMatch_eq spec_exact_def spec_partial_def Let_def)

lemma checkExactMatch_pos:
  "0 < checkExactMatch ql p \<longleftrightarrow> 0 < spec_exact ql p \<or> 0 < spec_partial ql p"
  by (auto simp: checkExactMatch_eq spec_exact_def spec_partial_def)

lemma score_person_relevance:
  assumes "i < length ps"
  shows "case score_person (initialize ps) ql i (ps ! i) of
           None \<Rightarrow> final_score ql (ps ! i) (person_chunks i (ps ! i)) \<le> 0
         | Some r \<Rightarrow> person r = ps ! i
                     \<and> relevance r = final_score ql (ps ! i) (person_chunks i (ps ! i))
                     \<and> 0 < relevance r
                     \<and> matchType r = determineMatchType ql (ps ! i) (relevance r)"
proof -
  let ?p = "ps ! i"
  have own: "filter (\<lambda>chunk. personId chunk = person_id i) (chunks (initialize ps))
             = person_chunks i ?p"
    using assms by (rule own_chunks_initialize)
  show ?thesis
  proof (cases "0 < checkExactMatch ql ?p")
    case True
    then show ?thesis
      unfolding score_person_def own Let_def final_score_def spec_conversational_def
      using checkExactMatch_pos [of ql ?p] checkExactMatch_eq [of ql ?p]
      by (auto simp: not_less)
  next
    case False
    then show ?thesis
      unfolding score_person_def own Let_def final_score_def spec_conversational_def
      using checkExactMatch_pos [of ql ?p] similarity_scan_best [of ql "person_chunks i ?p"]
      by (auto simp: not_less split: prod.splits)
  qed
qed

subsection \<open>Evaluation on the examples\<close>

lemmas eval_strings = ascii_def toLowerCase_def lower_unit_def trim_def is_space_def
  is_separator_def split_words_def show_nat.simps show_int_def digit_def

lemmas eval_chunks = initialize_def createChunks_def person_chunks_def person_id_def
  person_metadata_def enumerate_eq_zip

lemmas eval_cosine = calculateCosineSimilarity_def word_frequencies_def count_word_def
  freq_increment_def freq_read_def object_prototype_members_def

lemmas eval_score = performSearch_def score_person_def similarity_scan_def checkExactMatch_def
  checkPartialMatch_def isConversationalQuery_def calculateConversationalScore_def
  determineMatchType_def generateExplanation_def List.map_filter_def

lemma sqrt11: "sqrt 11 < 15 / 4"
  by (rule real_less_lsqrt) (simp_all add: power2_eq_square)

lemma carol_sims:
  "chunk_similarities (ascii ''foo'') (chunks (initialize [carol])) = [3 / sqrt 11]"
  using sqrt11
  by (simp add: chunk_similarities_def carol_def eval_strings eval_chunks eval_cosine)


text \<open>
  Claim C1, as the code has it. The relevance of every returned record is its final
  score, which is positive: the larger of the conversational sum (for a conversational
  query) and of the match score, where the match score is 1.0 for an exact match, 0.8
  for a partial match, and only without either the best similarity above 0.05 among the
  chunks of the record. The steps are never added. In a store of at most five records,
  every record with a positive final score is returned.
\<close>

theorem final_score_is_max:
  "(\<forall>r \<in> set (performSearch (initialize ps) q).
      \<exists>i<length ps. person r = ps ! i
        \<and> relevance r = final_score (toLowerCase q) (ps ! i) (person_chunks i (ps ! i))
        \<and> 0 < relevance r)
   \<and> (length ps \<le> 5 \<longrightarrow>
        (\<forall>i<length ps. 0 < final_score (toLowerCase q) (ps ! i) (person_chunks i (ps ! i)) \<longrightarrow>
           (\<exists>r \<in> set (performSearch (initialize ps) q). person r = ps ! i
              \<and> relevance r = final_score (toLowerCase q) (ps ! i) (person_chunks i (ps ! i)))))"
proof (intro conjI ballI impI allI)
  fix r
  assume "r \<in> set (performSearch (initialize ps) q)"
  then obtain i where i: "i < length ps"
    and s: "score_person (initialize ps) (toLowerCase q) i (ps ! i) = Some r"
    using in_performSearch [of r "initialize ps" q] by (auto simp: initialize_def)
  from score_person_relevance [OF i, of "toLowerCase q"] s i
  show "\<exists>i<length ps. person r = ps ! i
        \<and> relevance r = final_score (toLowerCase q) (ps ! i) (person_chunks i (ps ! i))
        \<and> 0 < relevance r"
    by auto
next
  fix i
  assume small: "length ps \<le> 5" and i: "i < length ps"
    and pos: "0 < final_score (toLowerCase q) (ps ! i) (person_chunks i (ps ! i))"
  from score_person_relevance [OF i, of "toLowerCase q"] pos
  obtain r where s: "score_person (initialize ps) (toLowerCase q) i (ps ! i) = Some r"
    and r: "person r = ps ! i"
      "relevance r = final_score (toLowerCase q) (ps ! i) (person_chunks i (ps ! i))"
    by (cases "score_person (initialize ps) (toLowerCase q) i (ps ! i)") auto
  have "r \<in> set (performSearch (initialize ps) q)"
    using performSearch_small [of "initialize ps" i q r] small i s
    by (simp add: initialize_def)
  with r show "\<exists>r \<in> set (performSearch (initialize ps) q). person r = ps ! i
      \<and> relevance r = final_score (toLowerCase q) (ps ! i) (person_chunks i (ps ! i))"
    by blast
qed

lemma carol_final_score:
  "final_score (toLowerCase (ascii ''foo'')) carol (person_chunks 0 carol) = 4 / 5"
  by (simp add: final_score_def spec_exact_def spec_partial_def contains_either_def
      spec_conversational_def isConversationalQuery_def carol_def eval_strings)

theorem final_score_is_max_witness:
  "\<exists>r \<in> set (performSearch (initialize [carol]) (ascii ''foo'')).
      person r = carol \<and> relevance r = 4 / 5 \<and> 0 < relevance r"
proof -
  have pos: "0 < final_score (toLowerCase (ascii ''foo'')) ([carol] ! 0)
                     (person_chunks 0 ([carol] ! 0))"
    by (simp add: carol_final_score)
  from final_score_is_max [of "[carol]" "ascii ''foo''"] pos
  obtain r where "r \<in> set (performSearch (initialize [carol]) (ascii ''foo''))"
    and "person r = carol"
    and "relevance r = final_score (toLowerCase (ascii ''foo'')) carol (person_chunks 0 carol)"
    by auto
  then show ?thesis by (auto simp: carol_final_score)
qed

text \<open>
  Claim C1 as stated fails for the query \<^verbatim>\<open>foo\<close> on a record with the skill
  \<^verbatim>\<open>foobar\<close> and the experience \<^verbatim>\<open>foo foo foo foo\<close>: the partial match gives 0.8 and
  the similarity of the experience chunk, 3 / sqrt 11, is larger, but it is not computed.
\<close>

theorem final_score_counterexample:
  "map relevance (performSearch (initialize [carol]) (ascii ''foo'')) = [4 / 5]
   \<and> 4 / 5 < spec_final_score (toLowerCase (ascii ''foo'')) carol (chunks (initialize [carol]))"
proof
  show "map relevance (performSearch (initialize [carol]) (ascii ''foo'')) = [4 / 5]"
    by (simp add: carol_def eval_strings eval_chunks eval_score)
  have low: "toLowerCase (ascii ''foo'') = ascii ''foo''"
    by (simp add: eval_strings)
  have "best_similarity (ascii ''foo'') (chunks (initialize [carol])) = 3 / sqrt 11"
    by (simp add: best_similarity_def carol_sims)
  moreover have "(4 / 5 :: real) < 3 / sqrt 11"
    using sqrt11 by (simp add: field_simps)
  moreover have "best_similarity (ascii ''foo'') (chunks (initialize [carol]))
      \<le> spec_final_score (ascii ''foo'') carol (chunks (initialize [carol]))"
    by (simp add: spec_final_score_def)
  ultimately show "4 / 5
      < spec_final_score (toLowerCase (ascii ''foo'')) carol (chunks (initialize [carol]))"
    by (simp add: low)
qed

subsection \<open>Exact matches on a skill\<close>

lemma search_scorer:
  assumes "detectAggregationQuery st q = None"
    and "analyzeQueryType q = exact_search \<or> analyzeQueryType q = fuzzy_search"
  shows "search st q = Inr \<lparr>results = performSearch st q, aggregation = None,
                            queryType = analyzeQueryType q,
                            shouldUseGemini = (performSearch st q = [])\<rparr>"
  using assms by (auto simp: search_def handleExactSearch_def handleFuzzySearch_def Let_def)

lemma skill_in_lowered_query:
  assumes "skill \<in> set (skills p)" and "js_includes ql (toLowerCase skill)"
  shows "spec_exact ql p = 1 \<and> spec_partial ql p = 0"
proof -
  from assms have "list_ex (\<lambda>s. js_includes ql (toLowerCase s)) (skills p)"
    by (auto simp: list_ex_iff)
  then have e: "spec_exact ql p = 1" by (simp add: spec_exact_def)
  then have "spec_partial ql p = 0" by (simp add: spec_partial_def)
  with e show ?thesis by simp
qed

text \<open>
  When every record matches the query exactly and the query is not conversational, all
  scores are 1.0, the stable sort keeps the order of the store, and the results are its
  first five records.
\<close>

lemma all_exact_first_five:
  assumes ex: "\<And>i. i < length ps \<Longrightarrow> spec_exact (toLowerCase q) (ps ! i) = 1"
    and nc: "\<not> isConversationalQuery (toLowerCase q)"
  shows "map person (performSearch (initialize ps) q) = take 5 ps"
proof -
  let ?F = "\<lambda>(personIndex, p). score_person (initialize ps) (toLowerCase q) personIndex p"
  let ?c = "List.map_filter ?F (enumerate 0 ps)"
  have sc: "?F x \<noteq> None \<and> person (the (?F x)) = snd x \<and> relevance (the (?F x)) = 1"
    if "x \<in> set (enumerate 0 ps)" for x
  proof -
    define i where "i = fst x"
    from that have i: "i < length ps" and x: "x = (i, ps ! i)"
      by (auto simp: i_def in_set_enumerate_eq)
    have sp: "spec_partial (toLowerCase q) (ps ! i) = 0"
      using ex [OF i] by (simp add: spec_partial_def)
    have "final_score (toLowerCase q) (ps ! i) (person_chunks i (ps ! i)) = 1"
      using ex [OF i] sp nc by (simp add: final_score_def spec_conversational_def)
    with score_person_relevance [OF i, of "toLowerCase q"] show ?thesis
      unfolding x by (cases "score_person (initialize ps) (toLowerCase q) i (ps ! i)") auto
  qed
  then have all: "filter (\<lambda>x. ?F x \<noteq> None) (enumerate 0 ps) = enumerate 0 ps"
    by (intro filter_True) blast
  have c: "?c = map (the \<circ> ?F) (enumerate 0 ps)"
    unfolding List.map_filter_def all ..
  have pc: "map person ?c = ps"
  proof -
    have "map person ?c = map snd (enumerate 0 ps)"
      unfolding c map_map using sc by (intro map_cong) simp_all
    then show ?thesis by simp
  qed
  have "map (\<lambda>r. - relevance r) ?c = map (\<lambda>x. - 1) (enumerate 0 ps)"
    unfolding c map_map using sc by (intro map_cong) simp_all
  then have "sorted (map (\<lambda>r. - relevance r) ?c)"
    by (simp add: map_replicate_const)
  then have "sort_key (\<lambda>r. - relevance r) ?c = ?c"
    by (rule sort_key_id_if_sorted)
  then have "performSearch (initialize ps) q = take 5 ?c"
    by (simp add: performSearch_def Let_def initialize_def)
  then show ?thesis by (simp add: take_map [symmetric] pc)
qed

text \<open>
  What the cut to five results leaves out: a candidate that is not among the first
  \<open>n\<close> of the sorted candidates is preceded by \<open>n\<close> of them, none of a smaller
  relevance.
\<close>

lemma cut_by_cap:
  fixes xs :: "AdvancedSearchResult list"
  assumes "r \<in> set xs" and "r \<notin> set (take n (sort_key (\<lambda>r. - relevance r) xs))"
  shows "length (take n (sort_key (\<lambda>r. - relevance r) xs)) = n
         \<and> (\<forall>y \<in> set (take n (sort_key (\<lambda>r. - relevance r) xs)). relevance r \<le> relevance y)"
proof -
  define s where "s = sort_key (\<lambda>r. - relevance r) xs"
  have "sorted (map (\<lambda>r. - relevance r) s)"
    unfolding s_def by (rule sorted_sort_key)
  then have "sorted_wrt (\<lambda>a b. relevance a \<ge> relevance b) s"
    by (simp add: sorted_map)
  then have "sorted_wrt (\<lambda>a b. relevance a \<ge> relevance b) (take n s @ drop n s)"
    by simp
  then have le: "\<forall>y \<in> set (take n s). \<forall>z \<in> set (drop n s). relevance z \<le> relevance y"
    unfolding sorted_wrt_append by blast
  have "set s = set (take n s) \<union> set (drop n s)"
    by (metis append_take_drop_id set_append)
  moreover have "r \<in> set s" "r \<notin> set (take n s)"
    using assms by (simp_all add: s_def)
  ultimately have d: "r \<in> set (drop n s)" by blast
  then have "n < length s" by (cases "n < length s") simp_all
  then have "length (take n s) = n" by simp
  with le d show ?thesis unfolding s_def by blast
qed

lemma performSearch_cut:
  assumes "i < length (persons st)"
    and "score_person st (toLowerCase q) i (persons st ! i) = Some r"
  shows "r \<in> set (performSearch st q)
         \<or> (length (performSearch st q) = 5
            \<and> (\<forall>y \<in> set (performSearch st q). relevance r \<le> relevance y))"
proof -
  let ?c = "List.map_filter
      (\<lambda>(personIndex, p). score_person st (toLowerCase q) personIndex p) (enumerate 0 (persons st))"
  have p: "performSearch st q = take 5 (sort_key (\<lambda>r. - relevance r) ?c)"
    by (simp add: performSearch_def Let_def)
  have "r \<in> set ?c"
    using assms by (auto simp: in_map_filter in_set_enumerate_eq intro!: bexI [of _ "(i, persons st ! i)"])
  then show ?thesis
    unfolding p using cut_by_cap [of r ?c 5] by blast
qed

text \<open>
  Claim C5, as the code has it. The query contains a skill of a record when, both in
  lower case, the skill is a substring of the query. Then every result returned for that
  record has the match type exact and the relevance 1.0, or the conversational sum when
  that is larger. The record is among the results of the scorer unless the cut to five
  results removes it: in that case five records are returned, each with a relevance at
  least that of the record; in a store of at most five records nothing is cut. And
  \<^verbatim>\<open>search\<close> returns what the scorer returns when no aggregation is detected and the
  query is classified as an exact or a fuzzy search.
\<close>

theorem skill_match_is_exact:
  assumes "i < length ps" and "skill \<in> set (skills (ps ! i))"
    and "js_includes (toLowerCase q) (toLowerCase skill)"
  shows "(\<forall>r \<in> set (performSearch (initialize ps) q). person r = ps ! i \<longrightarrow>
            matchType r = Exact
            \<and> relevance r = max 1 (spec_conversational (toLowerCase q) (ps ! i)))
         \<and> ((\<exists>r \<in> set (performSearch (initialize ps) q). person r = ps ! i)
            \<or> (length (performSearch (initialize ps) q) = 5
               \<and> (\<forall>r \<in> set (performSearch (initialize ps) q).
                     max 1 (spec_conversational (toLowerCase q) (ps ! i)) \<le> relevance r)))
         \<and> (length ps \<le> 5 \<longrightarrow> (\<exists>r \<in> set (performSearch (initialize ps) q). person r = ps ! i))
         \<and> (detectAggregationQuery (initialize ps) q = None
              \<and> (analyzeQueryType q = exact_search \<or> analyzeQueryType q = fuzzy_search) \<longrightarrow>
             search (initialize ps) q =
               Inr \<lparr>results = performSearch (initialize ps) q, aggregation = None,
                    queryType = analyzeQueryType q,
                    shouldUseGemini = (performSearch (initialize ps) q = [])\<rparr>)"
proof -
  have fs: "final_score (toLowerCase q) (ps ! i) cs
            = max 1 (spec_conversational (toLowerCase q) (ps ! i))" for cs
    using skill_in_lowered_query [OF assms(2,3)] by (simp add: final_score_def)
  have first: "matchType r = Exact
        \<and> relevance r = max 1 (spec_conversational (toLowerCase q) (ps ! i))"
    if r: "r \<in> set (performSearch (initialize ps) q)" and p: "person r = ps ! i" for r
  proof -
    from r obtain j where j: "j < length ps"
      and s: "score_person (initialize ps) (toLowerCase q) j (ps ! j) = Some r"
      using in_performSearch [of r "initialize ps" q] by (auto simp: initialize_def)
    from score_person_relevance [OF j, of "toLowerCase q"] s p
    have pj: "ps ! j = ps ! i"
      and rel: "relevance r = final_score (toLowerCase q) (ps ! i) (person_chunks j (ps ! i))"
      and mt: "matchType r = determineMatchType (toLowerCase q) (ps ! i) (relevance r)"
      by auto
    from rel have rel': "relevance r = max 1 (spec_conversational (toLowerCase q) (ps ! i))"
      by (simp add: fs)
    then have "1 \<le> relevance r" by simp
    with mt have "matchType r = Exact" by (simp add: determineMatchType_def)
    with rel' show ?thesis by simp
  qed
  have "0 < final_score (toLowerCase q) (ps ! i) (person_chunks i (ps ! i))"
    by (simp add: fs)
  with score_person_relevance [OF assms(1), of "toLowerCase q"]
  obtain r where s: "score_person (initialize ps) (toLowerCase q) i (ps ! i) = Some r"
    and r: "person r = ps ! i"
    and rel: "relevance r = max 1 (spec_conversational (toLowerCase q) (ps ! i))"
    by (cases "score_person (initialize ps) (toLowerCase q) i (ps ! i)") (auto simp: fs)
  have second: "(\<exists>r \<in> set (performSearch (initialize ps) q). person r = ps ! i)
      \<or> (length (performSearch (initialize ps) q) = 5
         \<and> (\<forall>r \<in> set (performSearch (initialize ps) q).
               max 1 (spec_conversational (toLowerCase q) (ps ! i)) \<le> relevance r))"
    using performSearch_cut [of i "initialize ps" q r] assms(1) s r rel
    by (auto simp: initialize_def)
  have third: "\<exists>r \<in> set (performSearch (initialize ps) q). person r = ps ! i"
    if small: "length ps \<le> 5"
  proof -
    have "r \<in> set (performSearch (initialize ps) q)"
      using performSearch_small [of "initialize ps" i q r] small assms(1) s
      by (simp add: initialize_def)
    with r show ?thesis by blast
  qed
  from first second third search_scorer [of "initialize ps" q] show ?thesis by blast
qed

theorem skill_match_is_exact_witness:
  "\<exists>r \<in> set (performSearch (initialize [bob]) (ascii ''Who knows React?'')).
      person r = bob \<and> matchType r = Exact \<and> relevance r = 1"
proof -
  have i: "0 < length [bob]" by simp
  have s: "ascii ''react'' \<in> set (skills ([bob] ! 0))" by (simp add: bob_def)
  have q: "js_includes (toLowerCase (ascii ''Who knows React?'')) (toLowerCase (ascii ''react''))"
    by (simp add: eval_strings)
  have c: "spec_conversational (toLowerCase (ascii ''Who knows React?'')) bob = 0"
    by (simp add: spec_conversational_def isConversationalQuery_def eval_strings)
  have l: "length (performSearch (initialize [bob]) (ascii ''Who knows React?'')) \<le> 1"
    using length_performSearch_store [of "initialize [bob]"] by (simp add: initialize_def)
  from skill_match_is_exact [OF i s q] c l show ?thesis by auto
qed

text \<open>
  Claim C5 as stated fails in a store of six records with the skill \<^verbatim>\<open>python\<close>: the
  query \<^verbatim>\<open>python\<close> returns the first five, and the sixth, which has the skill too, is
  not among the results.
\<close>

theorem skill_match_counterexample:
  "pythonist ''fox'' \<in> set six_pythonists
   \<and> ascii ''python'' \<in> set (skills (pythonist ''fox''))
   \<and> js_includes (ascii ''python'') (ascii ''python'')
   \<and> \<not> isl (search (initialize six_pythonists) (ascii ''python''))
   \<and> map (name \<circ> person) (results (projr (search (initialize six_pythonists) (ascii ''python''))))
       = map ascii [''ann'', ''ben'', ''cat'', ''dan'', ''eve'']"
proof -
  have a: "detectAggregationQuery (initialize six_pythonists) (ascii ''python'') = None"
    by (simp add: detectAggregationQuery_def eval_strings)
  have t: "analyzeQueryType (ascii ''python'') = exact_search"
    by (simp add: analyzeQueryType_def exactKeywords_def eval_strings)
  have nc: "\<not> isConversationalQuery (toLowerCase (ascii ''python''))"
    by (simp add: isConversationalQuery_def eval_strings)
  have "list_all (\<lambda>p. spec_exact (toLowerCase (ascii ''python'')) p = 1) six_pythonists"
    by (simp add: six_pythonists_def pythonist_def spec_exact_def eval_strings)
  then have ex: "spec_exact (toLowerCase (ascii ''python'')) (six_pythonists ! i) = 1"
    if "i < length six_pythonists" for i
    using that by (simp add: list_all_length)
  have "map person (performSearch (initialize six_pythonists) (ascii ''python''))
        = take 5 six_pythonists"
    using ex nc by (rule all_exact_first_five)
  then have p: "map (name \<circ> person) (performSearch (initialize six_pythonists) (ascii ''python''))
        = map name (take 5 six_pythonists)"
    by (simp add: map_map [symmetric] del: map_map)
  have s: "search (initialize six_pythonists) (ascii ''python'') =
      Inr \<lparr>results = performSearch (initialize six_pythonists) (ascii ''python''),
           aggregation = None, queryType = exact_search,
           shouldUseGemini = (performSearch (initialize six_pythonists) (ascii ''python'') = [])\<rparr>"
    using search_scorer [OF a] t by simp
  show ?thesis
    unfolding s by (simp add: p) (simp add: six_pythonists_def pythonist_def ascii_def)
qed

text \<open>
  The relevance of a record named by one of its skills is above 1.0 when the
  conversational cues add up to more.
\<close>

lemma skill_match_above_one:
  "map relevance (performSearch (initialize [dave]) cue_query) = [6 / 5]"
  by (simp add: dave_def cue_query_def eval_strings eval_chunks eval_score)

subsection \<open>The empty query\<close>

text \<open>
  Claim C2 fails on the code: every string contains the empty string, so for the empty
  query the partial match succeeds on the department of every record, and the record is
  returned with relevance 0.8. The similarity step, by contrast, returns 0 for a query
  without words.
\<close>

theorem empty_query_returns_record:
  "search (initialize [alice]) [] =
     Inr \<lparr>results = [\<lparr>person = alice, relevance = 4 / 5,
                        matchedChunks = chunks (initialize [alice]),
                        explanation = [0x9AD8, 0x3044, 0x95A2, 0x9023, 0x6027], matchType = Similar\<rparr>],
          aggregation = None, queryType = fuzzy_search, shouldUseGemini = False\<rparr>"
proof -
  have a: "detectAggregationQuery (initialize [alice]) [] = None"
    by (simp add: detectAggregationQuery_def eval_strings)
  have t: "analyzeQueryType [] = fuzzy_search"
    by (simp add: analyzeQueryType_def exactKeywords_def conversationalKeywords_def
        analyticalKeywords_def generalKeywords_def eval_strings)
  have p: "performSearch (initialize [alice]) [] =
      [\<lparr>person = alice, relevance = 4 / 5, matchedChunks = chunks (initialize [alice]),
        explanation = [0x9AD8, 0x3044, 0x95A2, 0x9023, 0x6027], matchType = Similar\<rparr>]"
    by (simp add: alice_def eval_strings eval_chunks eval_score)
  show ?thesis
    using search_scorer [OF a] t by (simp add: p)
qed

lemma js_includes_empty: "js_includes s []"
  by (cases s) simp_all

lemma empty_query_partial: "checkPartialMatch [] p = 4 / 5"
  by (simp add: checkPartialMatch_eq contains_either_def js_includes_empty)

text \<open>In general, the empty query returns five records, or all of them in a smaller store.\<close>

lemma empty_query_returns_all:
  "length (performSearch (initialize ps) []) = min 5 (length ps)"
proof -
  let ?F = "\<lambda>(personIndex, p). score_person (initialize ps) (toLowerCase []) personIndex p"
  have pos: "0 < final_score [] p cs" for p cs
  proof -
    have "0 < checkExactMatch [] p"
      by (simp add: checkExactMatch_def empty_query_partial Let_def)
    then have "0 < spec_exact [] p \<or> 0 < spec_partial [] p"
      by (simp add: checkExactMatch_pos)
    then show ?thesis
      by (auto simp: final_score_def less_max_iff_disj)
  qed
  have "?F x \<noteq> None" if "x \<in> set (enumerate 0 ps)" for x
  proof -
    define i where "i = fst x"
    from that have i: "i < length ps" and x: "x = (i, ps ! i)"
      by (auto simp: i_def in_set_enumerate_eq)
    from score_person_relevance [OF i, of "[]"] pos [of "ps ! i" "person_chunks i (ps ! i)"]
    show ?thesis
      unfolding x by (cases "score_person (initialize ps) [] i (ps ! i)") (auto simp: toLowerCase_def)
  qed
  then have "filter (\<lambda>x. ?F x \<noteq> None) (enumerate 0 ps) = enumerate 0 ps"
    by (intro filter_True) blast
  then have "length (List.map_filter ?F (enumerate 0 ps)) = length ps"
    by (simp add: List.map_filter_def)
  then show ?thesis
    by (simp add: performSearch_def Let_def initialize_def min.commute)
qed

text \<open>A query of one space is returned for a record with a field that has a space.\<close>

lemma space_query_returns_record:
  "map (\<lambda>r. (person r, relevance r)) (performSearch (initialize [erin]) (ascii '' ''))
   = [(erin, 4 / 5)]"
  by (simp add: erin_def eval_strings eval_chunks eval_score)

section \<open>Aggregation queries\<close>

lemma exact_keyword_type:
  "k \<in> set exactKeywords \<Longrightarrow> js_includes (toLowerCase q) k \<Longrightarrow> analyzeQueryType q = exact_search"
  by (auto simp: analyzeQueryType_def list_ex_iff Let_def)

lemma search_aggregation:
  "detectAggregationQuery st q = Some a \<Longrightarrow>
   search st q = Inr \<lparr>results = [], aggregation = Some a, queryType = analyzeQueryType q,
                      shouldUseGemini = False\<rparr>"
  by (simp add: search_def)

text \<open>
  Claim C7, as the code has it. The keywords are Japanese. A query that contains
  \<open>nannin\<close> or \<open>ninzuu\<close> (how many people, head count) and names a department is
  answered by a count: for \<open>kaihatsubu\<close> the number of records whose department
  contains \<open>kaihatsu\<close>, otherwise for \<open>infura\<close> and then for \<open>dezain\<close> the number of
  records whose department contains that word. The description names the department and
  the count, and \<^verbatim>\<open>search\<close> returns the aggregation with no results.
\<close>

theorem department_head_count:
  assumes "js_includes (toLowerCase q) nannin \<or> js_includes (toLowerCase q) ninzuu"
  shows "let count_of = (\<lambda>token. length (filter (\<lambda>p. js_includes (department p) token)
                                         (persons st)));
             answer = (\<lambda>label n.
               \<lparr>agg_type = CountType, agg_value = NumberValue n,
                description = label @ [0x306B, 0x6240, 0x5C5E, 0x3057, 0x3066, 0x3044, 0x308B, 0x4EBA, 0x306F] @ show_nat n @ [0x4EBA, 0x3067, 0x3059, 0x3002],
                details = Some (DepartmentCount label n (length (persons st)))\<rparr>)
         in (js_includes (toLowerCase q) kaihatsubu \<longrightarrow>
               detectAggregationQuery st q = Some (answer kaihatsubu (count_of kaihatsu)))
            \<and> (\<not> js_includes (toLowerCase q) kaihatsubu \<and> js_includes (toLowerCase q) infura \<longrightarrow>
               detectAggregationQuery st q = Some (answer infurabu (count_of infura)))
            \<and> (\<not> js_includes (toLowerCase q) kaihatsubu \<and> \<not> js_includes (toLowerCase q) infura
                \<and> js_includes (toLowerCase q) dezain \<longrightarrow>
               detectAggregationQuery st q = Some (answer dezainbu (count_of dezain)))
            \<and> (\<forall>a. detectAggregationQuery st q = Some a \<longrightarrow>
                 search st q = Inr \<lparr>results = [], aggregation = Some a,
                                    queryType = analyzeQueryType q, shouldUseGemini = False\<rparr>)"
  using assms
  by (auto simp: Let_def detectAggregationQuery_def department_count_def search_aggregation)

theorem department_head_count_witness:
  "search japanese_store how_many_in_development =
     Inr \<lparr>results = [],
          aggregation = Some
            \<lparr>agg_type = CountType, agg_value = NumberValue 2,
             description = kaihatsubu @ [0x306B, 0x6240, 0x5C5E, 0x3057, 0x3066, 0x3044, 0x308B, 0x4EBA, 0x306F] @ ascii ''2'' @ [0x4EBA, 0x3067, 0x3059, 0x3002],
             details = Some (DepartmentCount kaihatsubu 2 3)\<rparr>,
          queryType = exact_search, shouldUseGemini = False\<rparr>"
proof -
  have low: "toLowerCase how_many_in_development = how_many_in_development"
    by (simp add: how_many_in_development_def eval_strings)
  have hm: "js_includes (toLowerCase how_many_in_development) nannin
            \<or> js_includes (toLowerCase how_many_in_development) ninzuu"
    by (simp add: low) (simp add: how_many_in_development_def)
  have d: "js_includes (toLowerCase how_many_in_development) kaihatsubu"
    by (simp add: low) (simp add: how_many_in_development_def)
  have n: "length (filter (\<lambda>p. js_includes (department p) kaihatsu) (persons japanese_store)) = 2"
    by (simp add: japanese_store_def initialize_def member_def)
  have l: "length (persons japanese_store) = 3"
    by (simp add: japanese_store_def initialize_def)
  have k: "kaihatsubu \<in> set exactKeywords" by (simp add: exactKeywords_def)
  have t: "analyzeQueryType how_many_in_development = exact_search"
    using k d by (rule exact_keyword_type)
  from department_head_count [OF hm, of japanese_store] d
  show ?thesis
    by (simp add: Let_def n l t) (simp add: show_nat.simps digit_def ascii_def)
qed

text \<open>
  Claim C7 as stated fails: the English question contains none of the keywords, no
  aggregation is detected, and the query goes to the scorer.
\<close>

theorem english_question_counterexample:
  "detectAggregationQuery english_store (ascii ''How many people are in Dev?'') = None
   \<and> \<not> isl (search english_store (ascii ''How many people are in Dev?''))
   \<and> aggregation (projr (search english_store (ascii ''How many people are in Dev?''))) = None"
proof -
  have a: "detectAggregationQuery english_store (ascii ''How many people are in Dev?'') = None"
    by (simp add: detectAggregationQuery_def eval_strings)
  have t: "analyzeQueryType (ascii ''How many people are in Dev?'') = fuzzy_search"
    by (simp add: analyzeQueryType_def exactKeywords_def conversationalKeywords_def
        analyticalKeywords_def generalKeywords_def eval_strings)
  show ?thesis
    using search_scorer [OF a] t by (simp add: a)
qed

section \<open>Queries that match nothing\<close>

lemma similarity_scan_none:
  assumes "\<And>c. c \<in> set cs \<Longrightarrow>
             calculateCosineSimilarity ql (toLowerCase (content c)) = NaN
             \<or> calculateCosineSimilarity ql (toLowerCase (content c)) = Num 0"
  shows "similarity_scan ql cs = (0, [])"
proof -
  have "fold (\<lambda>chunk (maxRelevance, matched).
             case calculateCosineSimilarity ql (toLowerCase (content chunk)) of
               Num relevance' \<Rightarrow>
                 if relevance' > 0.05 then (max maxRelevance relevance', matched @ [chunk])
                 else (maxRelevance, matched)
             | NaN \<Rightarrow> (maxRelevance, matched)) cs acc = acc" for acc
    using assms
  proof (induction cs arbitrary: acc)
    case Nil
    then show ?case by simp
  next
    case (Cons c cs)
    obtain m ms where acc: "acc = (m, ms)" by (cases acc)
    have rest: "\<And>c'. c' \<in> set cs \<Longrightarrow>
             calculateCosineSimilarity ql (toLowerCase (content c')) = NaN
             \<or> calculateCosineSimilarity ql (toLowerCase (content c')) = Num 0"
      using Cons.prems by simp
    from Cons.prems [of c] consider
      (nan) "calculateCosineSimilarity ql (toLowerCase (content c)) = NaN"
      | (zero) "calculateCosineSimilarity ql (toLowerCase (content c)) = Num 0"
      by auto
    then show ?case
    proof cases
      case nan
      then show ?thesis using Cons.IH [OF rest, of acc] by (simp add: acc)
    next
      case zero
      then show ?thesis using Cons.IH [OF rest, of acc] by (simp add: acc)
    qed
  qed
  then show ?thesis by (simp add: similarity_scan_def)
qed

lemma map_filter_none: "(\<And>x. x \<in> set xs \<Longrightarrow> f x = None) \<Longrightarrow> List.map_filter f xs = []"
  by (simp add: List.map_filter_def filter_empty_conv)

lemma performSearch_nothing:
  assumes nomatch: "\<forall>p \<in> set (persons st). spec_exact (toLowerCase q) p = 0
             \<and> spec_partial (toLowerCase q) p = 0 \<and> spec_conversational (toLowerCase q) p = 0"
    and disjoint: "\<forall>c \<in> set (chunks st).
             set (counted_words (toLowerCase q)) \<inter> set (counted_words (toLowerCase (content c))) = {}"
  shows "performSearch st q = []"
proof -
  have "score_person st (toLowerCase q) i p = None" if "p \<in> set (persons st)" for i p
  proof -
    let ?own = "filter (\<lambda>chunk. personId chunk = person_id i) (chunks st)"
    have e: "checkExactMatch (toLowerCase q) p = 0"
      using nomatch that by (simp add: checkExactMatch_eq)
    have s: "similarity_scan (toLowerCase q) ?own = (0, [])"
      using disjoint by (intro similarity_scan_none cosine_disjoint) auto
    have c: "isConversationalQuery (toLowerCase q) \<Longrightarrow>
             calculateConversationalScore (toLowerCase q) p = 0"
      using nomatch that by (auto simp: spec_conversational_def)
    show ?thesis
      by (simp add: score_person_def Let_def e s c)
  qed
  then have "List.map_filter (\<lambda>(personIndex, p). score_person st (toLowerCase q) personIndex p)
               (enumerate 0 (persons st)) = []"
    by (intro map_filter_none) (auto simp: in_set_enumerate_eq)
  then show ?thesis by (simp add: performSearch_def Let_def)
qed

lemma not_exact_keyword:
  "analyzeQueryType q \<noteq> exact_search \<Longrightarrow> k \<in> set exactKeywords \<Longrightarrow>
   \<not> js_includes (toLowerCase q) k"
  using exact_keyword_type by blast

text \<open>
  Claim C9, as the code has it. A query for which no aggregation is detected, which does
  not ask for statistics, a list or the best records (it has neither \<open>yuushuu\<close> nor
  \<open>busho\<close> together with \<open>nannin\<close> or \<open>nanigaaru\<close>), which matches no record exactly
  or partially, which gives every record the conversational score 0, and which has no
  counted word in common with any chunk, returns no results and asks for the generator.
\<close>

theorem no_match_escalates:
  assumes agg: "detectAggregationQuery st q = None"
    and best: "\<not> js_includes (toLowerCase q) yuushuu"
    and stat: "\<not> (js_includes (toLowerCase q) busho
                  \<and> (js_includes (toLowerCase q) nannin \<or> js_includes (toLowerCase q) nanigaaru))"
    and nomatch: "\<forall>p \<in> set (persons st). spec_exact (toLowerCase q) p = 0
             \<and> spec_partial (toLowerCase q) p = 0 \<and> spec_conversational (toLowerCase q) p = 0"
    and disjoint: "\<forall>c \<in> set (chunks st).
             set (counted_words (toLowerCase q)) \<inter> set (counted_words (toLowerCase (content c))) = {}"
  shows "search st q = Inr \<lparr>results = [], aggregation = None, queryType = analyzeQueryType q,
                            shouldUseGemini = True\<rparr>"
proof -
  have none: "performSearch st q = []"
    using nomatch disjoint by (rule performSearch_nothing)
  show ?thesis
  proof (cases "analyzeQueryType q")
    case exact_search
    then show ?thesis using search_scorer [OF agg] by (simp add: none)
  next
    case fuzzy_search
    then show ?thesis using search_scorer [OF agg] by (simp add: none)
  next
    case analytical
    then have ne: "analyzeQueryType q \<noteq> exact_search" by simp
    have k: "\<not> js_includes (toLowerCase q) sukiru" "\<not> js_includes (toLowerCase q) gijutsu"
      "\<not> js_includes (toLowerCase q) keiken" "\<not> js_includes (toLowerCase q) nensuu"
      by (rule not_exact_keyword [OF ne], simp add: exactKeywords_def)+
    have "handleAnalyticalQuery st q =
        Inr \<lparr>results = [], aggregation = None, queryType = analytical, shouldUseGemini = True\<rparr>"
      using best stat k by (auto simp: handleAnalyticalQuery_def Let_def)
    then show ?thesis using agg analytical by (simp add: search_def)
  next
    case general_question
    then have ne: "analyzeQueryType q \<noteq> exact_search" by simp
    have k: "\<not> js_includes (toLowerCase q) sukiru" "\<not> js_includes (toLowerCase q) gijutsu"
      by (rule not_exact_keyword [OF ne], simp add: exactKeywords_def)+
    have "handleGeneralQuestion st q =
        \<lparr>results = [], aggregation = None, queryType = general_question,
         shouldUseGemini = True\<rparr>"
      using stat k by (auto simp: handleGeneralQuestion_def Let_def none)
    then show ?thesis using agg general_question by (simp add: search_def)
  qed
qed

theorem no_match_escalates_witness:
  "search (initialize [alice]) (ascii ''zzz'') =
     Inr \<lparr>results = [], aggregation = None, queryType = fuzzy_search, shouldUseGemini = True\<rparr>"
proof -
  have low: "toLowerCase (ascii ''zzz'') = ascii ''zzz''" by (simp add: eval_strings)
  have agg: "detectAggregationQuery (initialize [alice]) (ascii ''zzz'') = None"
    by (simp add: detectAggregationQuery_def eval_strings)
  have best: "\<not> js_includes (toLowerCase (ascii ''zzz'')) yuushuu"
    by (simp add: eval_strings)
  have stat: "\<not> (js_includes (toLowerCase (ascii ''zzz'')) busho
                  \<and> (js_includes (toLowerCase (ascii ''zzz'')) nannin
                      \<or> js_includes (toLowerCase (ascii ''zzz'')) nanigaaru))"
    by (simp add: eval_strings)
  have nomatch: "\<forall>p \<in> set (persons (initialize [alice])).
        spec_exact (toLowerCase (ascii ''zzz'')) p = 0
        \<and> spec_partial (toLowerCase (ascii ''zzz'')) p = 0
        \<and> spec_conversational (toLowerCase (ascii ''zzz'')) p = 0"
    by (simp add: initialize_def alice_def spec_exact_def spec_partial_def contains_either_def
        spec_conversational_def isConversationalQuery_def eval_strings)
  have disjoint: "\<forall>c \<in> set (chunks (initialize [alice])).
        set (counted_words (toLowerCase (ascii ''zzz'')))
        \<inter> set (counted_words (toLowerCase (content c))) = {}"
    by (simp add: alice_def counted_words_def normalized_def eval_chunks eval_strings)
  have t: "analyzeQueryType (ascii ''zzz'') = fuzzy_search"
    by (simp add: analyzeQueryType_def exactKeywords_def conversationalKeywords_def
        analyticalKeywords_def generalKeywords_def eval_strings)
  from no_match_escalates [OF agg best stat nomatch disjoint] t show ?thesis by simp
qed

text \<open>
  Claim C9 as stated fails for the query \<open>yuushuu\<close> (excellent): its only token occurs
  in no chunk and no aggregation is detected, yet the query is analytical, the best
  records are returned and the generator is not asked.
\<close>

theorem no_overlap_counterexample:
  "spec_no_token_occurs (initialize [alice]) yuushuu
   \<and> detectAggregationQuery (initialize [alice]) yuushuu = None
   \<and> \<not> isl (search (initialize [alice]) yuushuu)
   \<and> map (name \<circ> person) (results (projr (search (initialize [alice]) yuushuu)))
       = [ascii ''Alice'']
   \<and> \<not> shouldUseGemini (projr (search (initialize [alice]) yuushuu))"
proof -
  have n: "spec_no_token_occurs (initialize [alice]) yuushuu"
    by (simp add: spec_no_token_occurs_def spec_tokens_def spec_is_separator_def alice_def
        eval_chunks eval_strings)
  have a: "detectAggregationQuery (initialize [alice]) yuushuu = None"
    by (simp add: detectAggregationQuery_def eval_strings)
  have t: "analyzeQueryType yuushuu = analytical"
    by (simp add: analyzeQueryType_def exactKeywords_def conversationalKeywords_def
        analyticalKeywords_def eval_strings)
  have h: "handleAnalyticalQuery (initialize [alice]) yuushuu =
      Inr \<lparr>results = findTopPerformers (initialize [alice]), aggregation = None,
           queryType = analytical, shouldUseGemini = False\<rparr>"
    by (simp add: handleAnalyticalQuery_def eval_strings)
  have s: "search (initialize [alice]) yuushuu =
      Inr \<lparr>results = findTopPerformers (initialize [alice]), aggregation = None,
           queryType = analytical, shouldUseGemini = False\<rparr>"
    by (simp add: search_def a t h)
  have f: "map (name \<circ> person) (findTopPerformers (initialize [alice])) = [ascii ''Alice'']"
    by (simp add: findTopPerformers_def initialize_def alice_def)
  show ?thesis
    by (simp add: n a s f)
qed

end
